theory Spec2Isabelle
  imports Main
begin

section \<open>Values, exceptions and observable effects\<close>

text \<open>
  The module \<^verbatim>\<open>utils/appliance/__init__.py\<close> drives a remote machine. Everything it does
  beyond computing a value is an effect on the outside world: a command sent over SSH, a
  file transferred, an HTTP request, a sleep, a log line. The embedding records each such
  effect as an \<open>event\<close> appended to a trace, and lets the outside world answer as a function
  of the trace so far. A Python exception is a value of type \<open>exn\<close>; a function that can raise
  returns \<open>exn + 'a\<close> with \<open>Inl\<close> for the exception.
\<close>

datatype pyval = PyNone | PyBool bool | PyInt int | PyStr string

datatype exn =
    ApplianceException string
  | AssertionError string
  | AttributeError string
  | ValueError string
  | KeyError string
  | TypeError string
  | IOError string
  | IndexError string
  | TimedOutError string
  | PyException string

text \<open>A parsed YAML document; a mapping keeps the order of its keys.\<close>

datatype yaml =
    YNone
  | YBool bool
  | YInt int
  | YStr string
  | YDict "(string \<times> yaml) list"

datatype event =
    RunCommand string string
  | PutFile string string string
  | GetFile string string string
  | HttpGet string
  | Sleep nat
  | LogMsg string string
  | BrowserStart
  | FireArtHook string
  | RunRails string string
  | NetCheck string
  | DbQuery string string
  | YamlDump string yaml

section \<open>Appliance equality\<close>

text \<open>
  \<^verbatim>\<open>IPAppliance\<close> is constructed from an address; \<^verbatim>\<open>Appliance(IPAppliance)\<close> from a provider
  key and a VM name, its \<^verbatim>\<open>address\<close> being what the provider reports for the VM (the third
  field below). \<open>Foreign\<close> stands for any object that is not an appliance.
\<close>

datatype appliance =
    IPAppliance string
  | Appliance string string string

datatype pyobj = App appliance | Foreign

fun address_of :: "appliance \<Rightarrow> string" where
  "address_of (IPAppliance a) = a"
| "address_of (Appliance pk vm a) = a"

fun is_Appliance :: "appliance \<Rightarrow> bool" where
  "is_Appliance (IPAppliance a) = False"
| "is_Appliance (Appliance pk vm a) = True"

text \<open>
  \<^verbatim>\<open>IPAppliance.__eq__\<close>:
  \<^verbatim>\<open>return isinstance(other, IPAppliance) and self.address == other.address\<close>.
  Every appliance, of either class, is an instance of \<^verbatim>\<open>IPAppliance\<close>.
\<close>

fun IPAppliance_eq :: "appliance \<Rightarrow> pyobj \<Rightarrow> bool" where
  "IPAppliance_eq self Foreign = False"
| "IPAppliance_eq self (App other) = (address_of self = address_of other)"

text \<open>
  \<^verbatim>\<open>Appliance.__eq__\<close>:
  \<^verbatim>\<open>return isinstance(other, type(self)) and (
      self.vmname == other.vmname and self._provider_key == other._provider_key)\<close>.
  The method is bound to instances of \<^verbatim>\<open>Appliance\<close> only, so \<^verbatim>\<open>type(self)\<close> is
  \<^verbatim>\<open>Appliance\<close>; the first argument is the provider key and the VM name of \<^verbatim>\<open>self\<close>.
\<close>

fun Appliance_eq :: "string \<Rightarrow> string \<Rightarrow> pyobj \<Rightarrow> bool" where
  "Appliance_eq pk vm (App (Appliance pk' vm' a')) = (vm = vm' \<and> pk = pk')"
| "Appliance_eq pk vm other = False"

text \<open>The \<^verbatim>\<open>__eq__\<close> that an appliance's class provides.\<close>

fun eq_method :: "appliance \<Rightarrow> pyobj \<Rightarrow> bool" where
  "eq_method (IPAppliance a) other = IPAppliance_eq (IPAppliance a) other"
| "eq_method (Appliance pk vm a) other = Appliance_eq pk vm other"

text \<open>
  The expression \<^verbatim>\<open>v == w\<close> on two appliances. Python's rich comparison first tries the
  right operand's method when the operands have different types and the right operand's
  type is a subclass of the left operand's (here: \<open>v\<close> an \<^verbatim>\<open>IPAppliance\<close>, \<open>w\<close> an
  \<^verbatim>\<open>Appliance\<close>); \<^verbatim>\<open>__eq__\<close> is its own reflection. Both methods return a \<^verbatim>\<open>bool\<close>, never
  \<^verbatim>\<open>NotImplemented\<close>, so the first method tried decides.
\<close>

definition py_eq :: "appliance \<Rightarrow> appliance \<Rightarrow> bool" where
  "py_eq v w =
     (if \<not> is_Appliance v \<and> is_Appliance w then eq_method w (App v)
      else eq_method v (App w))"

section \<open>The appliance stack\<close>

text \<open>
  \<^verbatim>\<open>ApplianceStack\<close> extends werkzeug's \<^verbatim>\<open>LocalStack\<close>: a list per execution context, where
  \<^verbatim>\<open>push\<close> appends, \<^verbatim>\<open>top\<close> is the last element or \<^verbatim>\<open>None\<close>, and \<^verbatim>\<open>pop\<close> removes and
  returns the last element, or returns \<^verbatim>\<open>None\<close> on an empty stack. The stack holds object
  references; \<open>objs\<close> is the store that gives each reference its attributes. The head of
  the list \<open>items\<close> is the top.
\<close>

record appliance_attrs =
  obj_address :: string
  browser_steal :: bool

record stack_state =
  items :: "nat list"
  objs :: "nat \<Rightarrow> appliance_attrs"
  stack_trace :: "event list"

definition top_stack :: "stack_state \<Rightarrow> nat option" where
  "top_stack s = (case items s of [] \<Rightarrow> None | r # rs \<Rightarrow> Some r)"

definition LocalStack_push :: "nat \<Rightarrow> stack_state \<Rightarrow> stack_state" where
  "LocalStack_push r s = s\<lparr>items := r # items s\<rparr>"

definition LocalStack_pop :: "stack_state \<Rightarrow> nat option \<times> stack_state" where
  "LocalStack_pop s =
     (case items s of [] \<Rightarrow> (None, s) | r # rs \<Rightarrow> (Some r, s\<lparr>items := rs\<rparr>))"

definition stack_emit :: "event \<Rightarrow> stack_state \<Rightarrow> stack_state" where
  "stack_emit e s = s\<lparr>stack_trace := stack_trace s @ [e]\<rparr>"

text \<open>\<^verbatim>\<open>getattr(x, 'address', 'empty')\<close> for \<open>x\<close> the top of the stack or \<^verbatim>\<open>None\<close>.\<close>

definition address_or_empty :: "stack_state \<Rightarrow> nat option \<Rightarrow> string" where
  "address_or_empty s x = (case x of None \<Rightarrow> ''empty'' | Some r \<Rightarrow> obj_address (objs s r))"

text \<open>
  \<^verbatim>\<open>ApplianceStack.push\<close>: remember the old top, push, log, and start the browser when the
  pushed appliance steals the browser session.
\<close>

definition push :: "nat \<Rightarrow> stack_state \<Rightarrow> stack_state" where
  "push obj s =
     (let was_before = top_stack s;
          s1 = LocalStack_push obj s;
          s2 = stack_emit (LogMsg ''info'' (''Pushed appliance '' @ obj_address (objs s1 obj) @
                 '' on stack (was '' @ address_or_empty s1 was_before @ '' before) '')) s1
      in if browser_steal (objs s2 obj) then stack_emit BrowserStart s2 else s2)"

text \<open>
  \<^verbatim>\<open>ApplianceStack.pop\<close>: on an empty stack the base class returns \<^verbatim>\<open>None\<close> and reading
  \<^verbatim>\<open>was_before.address\<close> for the log line raises \<^verbatim>\<open>AttributeError\<close>.
\<close>

definition pop :: "stack_state \<Rightarrow> (exn + nat) \<times> stack_state" where
  "pop s =
     (case LocalStack_pop s of
        (None, s1) \<Rightarrow> (Inl (AttributeError ''address''), s1)
      | (Some was_before, s1) \<Rightarrow>
          (let current = top_stack s1;
               s2 = stack_emit (LogMsg ''info'' (''Popped appliance '' @ obj_address (objs s1 was_before) @
                      '' from the stack (now there is '' @ address_or_empty s1 current @ '')'')) s1;
               s3 = (if browser_steal (objs s2 was_before) then stack_emit BrowserStart s2 else s2)
           in (Inr was_before, s3)))"

text \<open>\<^verbatim>\<open>IPAppliance.__enter__\<close>: \<^verbatim>\<open>stack.push(self); return self\<close>.\<close>

definition enter :: "nat \<Rightarrow> stack_state \<Rightarrow> nat \<times> stack_state" where
  "enter self s = (self, push self s)"

text \<open>
  \<^verbatim>\<open>IPAppliance._screenshot_capture_at_context_leave\<close>. Its three imports, the screenshot
  and the artifactor hook belong to the test runner; \<open>capture_env\<close> says whether the imports
  succeed, whether the process runs under Sprout, what \<^verbatim>\<open>take_screenshot\<close> returns and
  whether one of those calls raises. \<open>exc\<close> is the exception the scope is left with, if any.
\<close>

record capture_env =
  imports_ok :: bool
  running_under_sprout :: bool
  take_screenshot :: "string option \<times> string option"
  capture_raises :: "string option"

definition screenshot_capture_at_context_leave ::
    "capture_env \<Rightarrow> exn option \<Rightarrow> stack_state \<Rightarrow> exn option \<times> stack_state" where
  "screenshot_capture_at_context_leave ce exc s =
     (if \<not> imports_ok ce then (None, stack_emit (LogMsg ''info'' ''Not inside pytest run, ignoring'') s)
      else if exc \<noteq> None \<and> \<not> running_under_sprout ce then
        (let s1 = stack_emit (LogMsg ''info''
                    ''Before we pop this appliance, a screenshot and a traceback will be taken.'') s
         in case capture_raises ce of
              Some m \<Rightarrow> (Some (PyException m), s1)
            | None \<Rightarrow>
               (let (ss, ss_error) = take_screenshot ce;
                    s2 = stack_emit (FireArtHook ''Appliance CM error traceback'') s1;
                    s3 = (if ss \<noteq> None \<and> ss \<noteq> Some ''''
                          then stack_emit (FireArtHook ''Appliance CM error screenshot'') s2 else s2);
                    s4 = (if ss_error \<noteq> None \<and> ss_error \<noteq> Some ''''
                          then stack_emit (FireArtHook ''Appliance CM error screenshot failure'') s3 else s3)
                in (None, s4)))
      else if exc \<noteq> None then
        (None, stack_emit (LogMsg ''info''
           ''Error happened but we are not inside a test run so no screenshot now.'') s)
      else (None, s))"

text \<open>
  \<^verbatim>\<open>IPAppliance.__exit__\<close>: an exception of the capture is logged and dropped; in the
  \<^verbatim>\<open>finally\<close> clause the stack is popped and the popped object must be \<^verbatim>\<open>self\<close>
  (\<^verbatim>\<open>assert stack.pop() is self, 'appliance stack inconsistent'\<close>). The result is the
  exception the method raises, if any, and the state it leaves.
\<close>

definition exit_scope ::
    "capture_env \<Rightarrow> nat \<Rightarrow> exn option \<Rightarrow> stack_state \<Rightarrow> exn option \<times> stack_state" where
  "exit_scope ce self exc s =
     (let (raised, s1) = screenshot_capture_at_context_leave ce exc s;
          s2 = (if raised \<noteq> None then stack_emit (LogMsg ''exception'' ''taking a screenshot failed'') s1
                else s1)
      in case pop s2 of
           (Inl e, s3) \<Rightarrow> (Some e, s3)
         | (Inr popped, s3) \<Rightarrow>
             if popped = self then (None, s3)
             else (Some (AssertionError ''appliance stack inconsistent''), s3))"

section \<open>The appliance, its caches and its collaborators\<close>

text \<open>
  What a command run over the remote command channel returns: exit status and output.
\<close>

record cmd_result =
  rc :: int
  "output" :: string

text \<open>
  What \<^verbatim>\<open>requests.get\<close> does: a response with a status code, or one of the exceptions the
  probe tells apart.
\<close>

datatype http_outcome =
    Response int
  | RaisesTimeout
  | RaisesValueError string
  | RaisesOther string

text \<open>
  Rows of the tables of the relational store that the module reads, with the columns it
  reads. A table that the store does not have is \<open>None\<close>: looking it up raises
  \<^verbatim>\<open>KeyError\<close>.
\<close>

record region_row =
  r_region :: int

record server_row =
  s_id :: int
  s_name :: string
  s_ipaddress :: string
  s_guid :: string
  s_zone_id :: int

record role_row =
  sr_id :: int
  sr_name :: string

record assigned_row =
  asr_server_role_id :: int
  asr_miq_server_id :: int
  asr_active :: bool

record db_contents =
  miq_regions :: "region_row list option"
  miq_servers :: "server_row list option"
  server_roles_table :: "role_row list option"
  assigned_server_roles :: "assigned_row list option"

text \<open>
  An SSH client is known by the host it connects to, the container it enters, and how it
  authenticates. A database handle (\<^verbatim>\<open>utils.db.Db\<close>) is known by its host; \<open>db_oid\<close> is the
  identity of the Python object.
\<close>

record ssh_client_obj =
  client_hostname :: string
  client_container :: "string option"
  client_is_pod :: bool
  client_key_auth :: bool

record db_handle =
  db_hostname :: string
  db_oid :: nat

text \<open>
  The collaborators of the module, outside it: each answers as a function of the events
  so far. \<open>max_attempts\<close> is the number of attempts of a predicate that fit into a time
  budget (\<open>num_sec\<close>, \<open>delay\<close>), which depends on how long each attempt really takes.
\<close>

record env =
  run_answer :: "event list \<Rightarrow> string \<Rightarrow> string \<Rightarrow> cmd_result"
  rails_answer :: "event list \<Rightarrow> string \<Rightarrow> string \<Rightarrow> cmd_result"
  net_check_answer :: "event list \<Rightarrow> string \<Rightarrow> bool"
  transport_raises :: "event list \<Rightarrow> bool"
  http_answer :: "event list \<Rightarrow> string \<Rightarrow> http_outcome"
  yaml_load :: "string \<Rightarrow> exn + yaml"
  store_answer :: "event list \<Rightarrow> string \<Rightarrow> db_contents"
  gen_alphanumeric :: "event list \<Rightarrow> string"
  load_data_file :: "string \<Rightarrow> (string \<times> string) list \<Rightarrow> string"
  named_temporary_file :: "event list \<Rightarrow> string"
  cred_ssh_password :: string
  cred_db_username :: string
  cred_db_password :: string
  clock_servers :: "string list"
  max_attempts :: "nat \<Rightarrow> nat \<Rightarrow> nat"

text \<open>
  The instance attributes of an appliance that the embedded methods read or write, and the
  trace of events. A \<^verbatim>\<open>cached_property\<close> is an optional attribute: \<open>None\<close> until first read.
  \<open>address\<close>, \<open>hostname\<close> and \<open>url\<close> are taken as resolved. \<open>next_oid\<close> is the identity the
  next object created gets.
\<close>

record astate =
  address :: string
  hostname :: string
  url :: string
  container :: "string option"
  openshift_creds :: "(string \<times> string) list"
  is_pod :: bool
  db_host :: "string option"
  db_ssh_client_attr :: "ssh_client_obj option"
  ssh_client_cache :: "ssh_client_obj option"
  get_host_address_cache :: "yaml option"
  db_address_cache :: "string option"
  db_cache :: "db_handle option"
  guid_cache :: "string option"
  evm_id_cache :: "int option"
  is_storage_enabled_cache :: "bool option"
  configuration_details_cache ::
    "(int option \<times> string option \<times> int option \<times> int option) option option"
  zone_description_cache :: "string option option"
  trace :: "event list"
  next_oid :: nat

section \<open>Sequencing with state and exceptions\<close>

text \<open>
  A method is a function from the state to a result and the state it leaves; the result is
  the returned value (\<open>Inr\<close>) or the exception raised (\<open>Inl\<close>).
\<close>

type_synonym 'a m = "astate \<Rightarrow> (exn + 'a) \<times> astate"

definition ret :: "'a \<Rightarrow> 'a m" where
  "ret v s = (Inr v, s)"

definition raise :: "exn \<Rightarrow> 'a m" where
  "raise e s = (Inl e, s)"

definition bnd :: "'a m \<Rightarrow> ('a \<Rightarrow> 'b m) \<Rightarrow> 'b m" where
  "bnd f g s = (case f s of (Inl e, s1) \<Rightarrow> (Inl e, s1) | (Inr v, s1) \<Rightarrow> g v s1)"

definition thn :: "unit m \<Rightarrow> 'b m \<Rightarrow> 'b m" where
  "thn f g = bnd f (\<lambda>u. g)"

definition gets :: "(astate \<Rightarrow> 'a) \<Rightarrow> 'a m" where
  "gets f s = (Inr (f s), s)"

definition modify :: "(astate \<Rightarrow> astate) \<Rightarrow> unit m" where
  "modify f s = (Inr (), f s)"

definition emit :: "event \<Rightarrow> unit m" where
  "emit e = modify (\<lambda>s. s\<lparr>trace := trace s @ [e]\<rparr>)"

text \<open>
  \<^verbatim>\<open>try: f except ...\<close>: the handler \<open>h\<close> gives the \<^verbatim>\<open>except\<close> body for the exceptions it
  catches and \<open>None\<close> for those it lets through.
\<close>

definition catch :: "'a m \<Rightarrow> (exn \<Rightarrow> 'a m option) \<Rightarrow> 'a m" where
  "catch f h s =
     (case f s of
        (Inr v, s1) \<Rightarrow> (Inr v, s1)
      | (Inl e, s1) \<Rightarrow> (case h e of None \<Rightarrow> (Inl e, s1) | Some g \<Rightarrow> g s1))"

text \<open>
  The \<^verbatim>\<open>cached_property\<close> decorator: the first read computes the value and stores it in
  the instance; a read that raises stores nothing.
\<close>

definition cached_property ::
    "(astate \<Rightarrow> 'a option) \<Rightarrow> ('a option \<Rightarrow> astate \<Rightarrow> astate) \<Rightarrow> 'a m \<Rightarrow> 'a m" where
  "cached_property get put compute s =
     (case get s of
        Some v \<Rightarrow> (Inr v, s)
      | None \<Rightarrow>
          (case compute s of
             (Inr v, s1) \<Rightarrow> (Inr v, put (Some v) s1)
           | (Inl e, s1) \<Rightarrow> (Inl e, s1)))"

text \<open>Logging writes a line; the trace keeps its level and text.\<close>

definition log :: "string \<Rightarrow> string \<Rightarrow> unit m" where
  "log level msg = emit (LogMsg level msg)"

section \<open>The remote command channel\<close>

definition run_command :: "env \<Rightarrow> ssh_client_obj \<Rightarrow> string \<Rightarrow> cmd_result m" where
  "run_command env client cmd =
     bnd (gets trace) (\<lambda>tr.
     thn (emit (RunCommand (client_hostname client) cmd))
         (ret (run_answer env tr (client_hostname client) cmd)))"

definition run_rails_command :: "env \<Rightarrow> ssh_client_obj \<Rightarrow> string \<Rightarrow> cmd_result m" where
  "run_rails_command env client cmd =
     bnd (gets trace) (\<lambda>tr.
     thn (emit (RunRails (client_hostname client) cmd))
         (ret (rails_answer env tr (client_hostname client) cmd)))"

definition put_file :: "ssh_client_obj \<Rightarrow> string \<Rightarrow> string \<Rightarrow> unit m" where
  "put_file client local remote = emit (PutFile (client_hostname client) local remote)"

definition get_file :: "ssh_client_obj \<Rightarrow> string \<Rightarrow> string \<Rightarrow> unit m" where
  "get_file client remote local = emit (GetFile (client_hostname client) remote local)"

text \<open>\<^verbatim>\<open>client(hostname=h)\<close>: a client like \<open>client\<close>, connected to another host.\<close>

definition client_call :: "ssh_client_obj \<Rightarrow> string \<Rightarrow> ssh_client_obj" where
  "client_call client h = client\<lparr>client_hostname := h\<rparr>"

text \<open>\<^verbatim>\<open>d[k]\<close> on a dictionary.\<close>

definition getitem :: "(string \<times> 'a) list \<Rightarrow> string \<Rightarrow> 'a m" where
  "getitem d k = (case map_of d k of None \<Rightarrow> raise (KeyError k) | Some v \<Rightarrow> ret v)"

text \<open>\<^verbatim>\<open>IPAppliance.is_ssh_running\<close>: \<^verbatim>\<open>net_check(ports.SSH, self.hostname, force=True)\<close>.\<close>

definition is_ssh_running :: "env \<Rightarrow> bool m" where
  "is_ssh_running env =
     bnd (gets hostname) (\<lambda>h.
     bnd (gets trace) (\<lambda>tr.
     thn (emit (NetCheck h))
         (ret (net_check_answer env tr h))))"

text \<open>
  \<^verbatim>\<open>IPAppliance.ssh_client_with_privatekey\<close>: a client to \<^verbatim>\<open>self.hostname\<close> that
  authenticates with the private key of the configuration.
\<close>

definition ssh_client_with_privatekey :: "ssh_client_obj m" where
  "ssh_client_with_privatekey =
     bnd (gets hostname) (\<lambda>h.
       ret \<lparr>client_hostname = h, client_container = None, client_is_pod = False,
            client_key_auth = True\<rparr>)"

text \<open>
  \<^verbatim>\<open>IPAppliance.ssh_client\<close>, a cached property. It raises when SSH is not reachable;
  with OpenShift credentials it connects to the OpenShift host and marks the appliance as
  a pod; when the transport of the new client fails, it falls back to the private key.
\<close>

definition ssh_client :: "env \<Rightarrow> ssh_client_obj m" where
  "ssh_client env =
     cached_property ssh_client_cache (\<lambda>v s. s\<lparr>ssh_client_cache := v\<rparr>)
       (bnd (is_ssh_running env) (\<lambda>running.
          if \<not> running then raise (PyException ''SSH is unavailable'')
          else
            bnd (gets openshift_creds) (\<lambda>creds.
            bnd (gets container) (\<lambda>cont.
            bnd (if creds \<noteq> [] then
                   bnd (getitem creds ''hostname'') (\<lambda>h.
                   bnd (getitem creds ''username'') (\<lambda>u.
                   bnd (getitem creds ''password'') (\<lambda>pw.
                   thn (modify (\<lambda>s. s\<lparr>is_pod := True\<rparr>))
                       (ret \<lparr>client_hostname = h, client_container = cont,
                             client_is_pod = True, client_key_auth = False\<rparr>))))
                 else
                   bnd (gets hostname) (\<lambda>h.
                       ret \<lparr>client_hostname = h, client_container = cont,
                            client_is_pod = False, client_key_auth = False\<rparr>))
              (\<lambda>client.
            bnd (gets trace) (\<lambda>tr.
              if transport_raises env tr then
                thn (log ''error'' ''default appliance ssh credentials failed, trying establish ssh connection using ssh private key'')
                    ssh_client_with_privatekey
              else
                thn (log ''info'' ''default appliance ssh credentials are valid'')
                    (ret client)))))))"

section \<open>Strings\<close>

text \<open>The two quote characters, which the command lines of the module contain.\<close>

definition dq :: string where
  "dq = [CHR 0x22]"

definition sq :: string where
  "sq = [CHR 0x27]"

text \<open>\<^verbatim>\<open>str(n)\<close> and \<^verbatim>\<open>'{}'.format(n)\<close> for an integer.\<close>

fun str_nat :: "nat \<Rightarrow> string" where
  "str_nat n =
     (if n < 10 then [char_of (48 + n)] else str_nat (n div 10) @ [char_of (48 + n mod 10)])"

declare str_nat.simps [simp del]

definition str_int :: "int \<Rightarrow> string" where
  "str_int i = (if i < 0 then ''-'' @ str_nat (nat (- i)) else str_nat (nat i))"

text \<open>\<^verbatim>\<open>needle in hay\<close> on strings, \<^verbatim>\<open>s.startswith(p)\<close> and \<^verbatim>\<open>s.strip()\<close>.\<close>

fun startswith :: "string \<Rightarrow> string \<Rightarrow> bool" where
  "startswith s [] = True"
| "startswith [] (p # ps) = False"
| "startswith (c # cs) (p # ps) = (c = p \<and> startswith cs ps)"

fun str_in :: "string \<Rightarrow> string \<Rightarrow> bool" where
  "str_in needle [] = (needle = [])"
| "str_in needle (c # cs) = (startswith (c # cs) needle \<or> str_in needle cs)"

definition is_space :: "char \<Rightarrow> bool" where
  "is_space c = (c \<in> set [CHR 0x20, CHR 0x09, CHR 0x0A, CHR 0x0B, CHR 0x0C, CHR 0x0D])"

definition strip :: "string \<Rightarrow> string" where
  "strip s = rev (dropWhile is_space (rev (dropWhile is_space s)))"

section \<open>The web UI probe\<close>

text \<open>
  \<^verbatim>\<open>IPAppliance._check_appliance_ui_wait_fn\<close>: one \<^verbatim>\<open>requests.get\<close> of the appliance's
  URL. Status 200 is \<^verbatim>\<open>True\<close>; another status, a timeout and any other exception are
  \<^verbatim>\<open>False\<close>; a \<^verbatim>\<open>ValueError\<close> (an invalid URL) is raised again.
\<close>

definition check_appliance_ui_wait_fn :: "env \<Rightarrow> bool m" where
  "check_appliance_ui_wait_fn env =
     bnd (gets url) (\<lambda>u.
     bnd (gets trace) (\<lambda>tr.
     thn (emit (HttpGet u))
       (case http_answer env tr u of
          Response status_code \<Rightarrow>
            if status_code = 200 then thn (log ''info'' ''Appliance online'') (ret True)
            else thn (log ''debug'' (''Appliance online, status code '' @ str_int status_code))
                     (ret False)
        | RaisesTimeout \<Rightarrow>
            thn (log ''debug'' ''Appliance offline, connection timed out'') (ret False)
        | RaisesValueError msg \<Rightarrow> raise (ValueError msg)
        | RaisesOther msg \<Rightarrow>
            thn (log ''debug'' (''Appliance online, but connection failed: '' @ msg))
                (ret False))))"

text \<open>
  The loop of \<^verbatim>\<open>is_web_ui_running\<close> over the rest of \<^verbatim>\<open>range(num_of_tries)\<close>, with
  \<^verbatim>\<open>was_running_count\<close> so far: probe, count, \<^verbatim>\<open>sleep(3)\<close>.
\<close>

primrec web_ui_tries :: "env \<Rightarrow> nat list \<Rightarrow> nat \<Rightarrow> nat m" where
  "web_ui_tries env [] was_running_count = ret was_running_count"
| "web_ui_tries env (try_num # rest) was_running_count =
     bnd (check_appliance_ui_wait_fn env) (\<lambda>running.
     thn (emit (Sleep 3))
         (web_ui_tries env rest
            (if running then was_running_count + 1 else was_running_count)))"

text \<open>\<^verbatim>\<open>IPAppliance.is_web_ui_running(unsure=False)\<close>.\<close>

definition is_web_ui_running :: "env \<Rightarrow> pyval \<Rightarrow> pyval m" where
  "is_web_ui_running env unsure =
     (let num_of_tries = 3 in
      bnd (web_ui_tries env [0..<num_of_tries] 0) (\<lambda>was_running_count.
        if was_running_count = 0 then ret (PyBool False)
        else if was_running_count = num_of_tries then ret (PyBool True)
        else ret unsure))"

section \<open>Configuration and database address\<close>

text \<open>\<^verbatim>\<open>d.get(k, default)\<close> on a parsed YAML value, and its truth value.\<close>

definition yaml_get :: "yaml \<Rightarrow> string \<Rightarrow> yaml \<Rightarrow> yaml m" where
  "yaml_get d k dflt =
     (case d of
        YDict kvs \<Rightarrow> (case map_of kvs k of None \<Rightarrow> ret dflt | Some v \<Rightarrow> ret v)
      | _ \<Rightarrow> raise (AttributeError ''get''))"

fun truthy :: "yaml \<Rightarrow> bool" where
  "truthy YNone = False"
| "truthy (YBool b) = b"
| "truthy (YInt i) = (i \<noteq> 0)"
| "truthy (YStr s) = (s \<noteq> [])"
| "truthy (YDict kvs) = (kvs \<noteq> [])"

text \<open>
  \<^verbatim>\<open>IPAppliance.get_yaml_config\<close>: dump the settings to a file with a Rails command, read
  the file, parse it.
\<close>

definition get_yaml_config :: "env \<Rightarrow> yaml m" where
  "get_yaml_config env =
     bnd (ssh_client env) (\<lambda>client.
     bnd (run_rails_command env client
            (dq @ ''File.open('' @ sq @ ''/tmp/yam_dump.yaml'' @ sq @ '', '' @ sq @ ''w'' @ sq @
             '') {|f| f.write(Settings.to_hash.deep_stringify_keys.to_yaml) }'' @ dq))
       (\<lambda>writeout.
     if rc writeout \<noteq> 0 then
       thn (log ''error'' ''Config couldn't be found'')
      (thn (log ''error'' (output writeout))
           (raise (PyException ''Error obtaining config'')))
     else
       bnd (ssh_client env) (\<lambda>client2.
       bnd (run_command env client2 ''cat /tmp/yam_dump.yaml'') (\<lambda>base_data.
       if rc base_data \<noteq> 0 then
         thn (log ''error'' ''Config couldn't be found'')
        (thn (log ''error'' (output base_data))
             (raise (PyException ''Error obtaining config'')))
       else
         (case yaml_load env (output base_data) of
            Inl e \<Rightarrow> thn (log ''debug'' (output base_data)) (raise e)
          | Inr data \<Rightarrow> ret data)))))"

text \<open>
  \<^verbatim>\<open>IPAppliance.get_host_address\<close>, a cached property: \<^verbatim>\<open>server.host\<close> of the
  configuration, and \<^verbatim>\<open>None\<close> when there is none or when reading it raises.
\<close>

definition get_host_address :: "env \<Rightarrow> yaml m" where
  "get_host_address env =
     cached_property get_host_address_cache (\<lambda>v s. s\<lparr>get_host_address_cache := v\<rparr>)
       (catch
          (bnd (get_yaml_config env) (\<lambda>config.
           bnd (yaml_get config ''server'' YNone) (\<lambda>server.
           if truthy server then yaml_get server ''host'' YNone else ret YNone)))
          (\<lambda>e. Some (thn (log ''exception'' ''get_host_address'')
                     (thn (log ''error'' ''Exception occured while fetching host address'')
                          (ret YNone)))))"

text \<open>
  Modelled from the spec: \<^verbatim>\<open>wait_for\<close> of \<^verbatim>\<open>utils/wait.py\<close>, which is not among the
  sources. It evaluates the predicate repeatedly, sleeping \<open>delay\<close> seconds between
  attempts, returns as soon as the predicate holds and fails with a timeout error once
  the time budget \<open>num_sec\<close> is used up; an exception of the predicate is fatal.
\<close>

primrec wait_loop :: "nat \<Rightarrow> nat \<Rightarrow> bool m \<Rightarrow> unit m" where
  "wait_loop 0 delay func = raise (TimedOutError ''Could not do it in time'')"
| "wait_loop (Suc n) delay func =
     bnd func (\<lambda>ok. if ok then ret () else thn (emit (Sleep delay)) (wait_loop n delay func))"

definition wait_for :: "env \<Rightarrow> bool m \<Rightarrow> nat \<Rightarrow> nat \<Rightarrow> unit m" where
  "wait_for env func num_sec delay = wait_loop (max_attempts env num_sec delay) delay func"

text \<open>
  \<^verbatim>\<open>IPAppliance.wait_for_host_address\<close>: wait until \<^verbatim>\<open>get_host_address\<close> is not \<^verbatim>\<open>None\<close>
  and return it; any exception, the timeout included, is logged and \<^verbatim>\<open>None\<close> is returned.
\<close>

definition wait_for_host_address :: "env \<Rightarrow> yaml m" where
  "wait_for_host_address env =
     catch
       (thn (wait_for env (bnd (get_host_address env) (\<lambda>v. ret (v \<noteq> YNone))) 120 5)
            (get_host_address env))
       (\<lambda>e. Some (thn (log ''exception'' ''wait_for_host_address'')
                  (thn (log ''error'' ''waiting for host address from yaml_config timedout'')
                       (ret YNone))))"

text \<open>
  \<^verbatim>\<open>IPAppliance.db_address\<close>, a cached property: \<^verbatim>\<open>db_host\<close> when given; otherwise the
  host of the configuration, replaced by the appliance's own address when it is missing or
  local, or when reading it raises \<^verbatim>\<open>IOError\<close> or \<^verbatim>\<open>KeyError\<close>.
\<close>

definition db_address :: "env \<Rightarrow> string m" where
  "db_address env =
     cached_property db_address_cache (\<lambda>v s. s\<lparr>db_address_cache := v\<rparr>)
       (bnd (gets db_host) (\<lambda>dh.
          if dh \<noteq> None \<and> dh \<noteq> Some [] then ret (case dh of Some h \<Rightarrow> h | None \<Rightarrow> [])
          else
            catch
              (bnd (wait_for_host_address env) (\<lambda>db.
                 case db of
                   YNone \<Rightarrow> gets address
                 | YStr db_text \<Rightarrow>
                     (let db1 = strip db_text in
                      bnd (ssh_client env) (\<lambda>client.
                      bnd (run_command env client ''ip address show'') (\<lambda>ip_addr.
                      if str_in db1 (output ip_addr) \<or> startswith db1 ''127'' \<or>
                         str_in ''localhost'' db1
                      then gets address
                      else ret db1)))
                 | _ \<Rightarrow> raise (AttributeError ''strip'')))
              (\<lambda>e. case e of
                      IOError x \<Rightarrow>
                        Some (thn (log ''error'' ''Unable to pull database address from appliance'')
                             (thn (log ''exception'' x) (gets address)))
                    | KeyError x \<Rightarrow>
                        Some (thn (log ''error'' ''Unable to pull database address from appliance'')
                             (thn (log ''exception'' x) (gets address)))
                    | _ \<Rightarrow> None)))"

text \<open>\<^verbatim>\<open>IPAppliance.is_db_internal\<close>: \<^verbatim>\<open>self.db_address == self.address\<close>.\<close>

definition is_db_internal :: "env \<Rightarrow> bool m" where
  "is_db_internal env =
     bnd (db_address env) (\<lambda>dba.
     bnd (gets address) (\<lambda>a. ret (dba = a)))"

text \<open>
  \<^verbatim>\<open>IPAppliance.db_ssh_client\<close>: the appliance's own client when the database is internal,
  otherwise a client to the database host, created on first use and kept in
  \<^verbatim>\<open>_db_ssh_client\<close>.
\<close>

definition db_ssh_client :: "env \<Rightarrow> ssh_client_obj m" where
  "db_ssh_client env =
     bnd (is_db_internal env) (\<lambda>internal.
       if internal then ssh_client env
       else
         bnd (gets db_ssh_client_attr) (\<lambda>cur.
           case cur of
             Some c \<Rightarrow> ret c
           | None \<Rightarrow>
               bnd (ssh_client env) (\<lambda>client.
               bnd (db_address env) (\<lambda>dba.
               thn (modify (\<lambda>s. s\<lparr>db_ssh_client_attr := Some (client_call client dba)\<rparr>))
                   (ret (client_call client dba))))))"

section \<open>Database readiness\<close>

text \<open>
  \<^verbatim>\<open>db_online\<close>, \<^verbatim>\<open>db_has_database\<close> and \<^verbatim>\<open>db_has_tables\<close>: each runs one \<^verbatim>\<open>psql\<close>
  command over the database-side channel and is true when the exit status is 0.
\<close>

definition db_online_command :: string where
  "db_online_command = ''psql -U postgres -t  -c '' @ dq @ ''select now()'' @ dq @ '' postgres''"

definition db_has_database_command :: string where
  "db_has_database_command =
     ''psql -U postgres -t  -c '' @ dq @ ''SELECT datname FROM pg_database WHERE datname LIKE '' @
     sq @ ''vmdb_%'' @ sq @ '';'' @ dq @ '' postgres | grep -q vmdb_production''"

definition db_has_tables_command :: string where
  "db_has_tables_command =
     ''psql -U postgres -t  -c '' @ dq @
     ''SELECT * FROM information_schema.tables WHERE table_schema = '' @
     sq @ ''public'' @ sq @ '';'' @ dq @ '' vmdb_production | grep -q vmdb_production''"

definition db_online :: "env \<Rightarrow> bool m" where
  "db_online env =
     bnd (db_ssh_client env) (\<lambda>client.
     bnd (run_command env client db_online_command) (\<lambda>result.
     ret (rc result = 0)))"

definition db_has_database :: "env \<Rightarrow> bool m" where
  "db_has_database env =
     bnd (db_ssh_client env) (\<lambda>client.
     bnd (run_command env client db_has_database_command) (\<lambda>result.
     ret (rc result = 0)))"

definition db_has_tables :: "env \<Rightarrow> bool m" where
  "db_has_tables env =
     bnd (db_ssh_client env) (\<lambda>client.
     bnd (run_command env client db_has_tables_command) (\<lambda>result.
     ret (rc result = 0)))"

text \<open>
  \<^verbatim>\<open>IPAppliance.is_db_ready\<close>:
  \<^verbatim>\<open>return self.db_online and self.db_has_database and self.db_has_tables\<close>. Python's
  \<^verbatim>\<open>and\<close> evaluates its operands from the left and stops at the first false one, whose
  value is the result.
\<close>

definition is_db_ready :: "env \<Rightarrow> bool m" where
  "is_db_ready env =
     bnd (db_online env) (\<lambda>online.
       if \<not> online then ret online
       else
         bnd (db_has_database env) (\<lambda>has_database.
           if \<not> has_database then ret has_database
           else db_has_tables env))"

section \<open>Fixing the clock\<close>

text \<open>\<^verbatim>\<open>sep.join(xs)\<close>.\<close>

fun join :: "string \<Rightarrow> string list \<Rightarrow> string" where
  "join sep [] = []"
| "join sep [x] = x"
| "join sep (x # y # ys) = x @ sep @ join sep (y # ys)"

text \<open>
  The \<^verbatim>\<open>log_callback\<close> that the \<^verbatim>\<open>logger_wrap\<close> decorator passes to a method: it logs the
  message behind the decorator's prefix.
\<close>

definition log_callback :: "string \<Rightarrow> string \<Rightarrow> unit m" where
  "log_callback prefix msg = log ''info'' (prefix @ msg)"

text \<open>The configuration file that \<^verbatim>\<open>fix_ntp_clock\<close> prepares, and the commands it runs.\<close>

definition chrony_config_file :: "env \<Rightarrow> string" where
  "chrony_config_file env =
     join ''\<newline>''
       ([''driftfile /var/lib/chrony/drift'', ''makestep 10 10'', ''rtcsync''] @
        map (\<lambda>clock_server. ''server '' @ clock_server @ '' iburst'') (clock_servers env))"

definition cat_chrony_conf :: string where
  "cat_chrony_conf = ''cat /etc/chrony.conf''"

definition status_chronyd :: string where
  "status_chronyd = ''systemctl status chronyd''"

definition restart_chronyd :: string where
  "restart_chronyd = ''systemctl restart chronyd''"

definition chronyc_tracking :: string where
  "chronyc_tracking = ''chronyc tracking''"

text \<open>
  \<^verbatim>\<open>IPAppliance.fix_ntp_clock\<close> works in five steps on \<^verbatim>\<open>client = self.ssh_client\<close>,
  one definition each. First: chrony must be installed.
\<close>

definition chrony_installed :: "env \<Rightarrow> ssh_client_obj \<Rightarrow> unit m" where
  "chrony_installed env client =
     bnd (run_command env client ''yum list installed chrony'') (\<lambda>installed.
     if rc installed \<noteq> 0 then raise (ApplianceException ''Chrony isn't installed'')
     else ret ())"

text \<open>Second: chronyd is enabled when it is not.\<close>

definition chrony_enable :: "env \<Rightarrow> ssh_client_obj \<Rightarrow> unit m" where
  "chrony_enable env client =
     bnd (run_command env client ''systemctl is-enabled chronyd'') (\<lambda>enabled.
     if rc enabled \<noteq> 0 then
       thn (log ''debug'' ''chrony will start on system startup'')
      (bnd (run_command env client ''systemctl enable chronyd'') (\<lambda>r1.
       bnd (run_command env client ''systemctl daemon-reload'') (\<lambda>r2. ret ())))
     else ret ())"

text \<open>
  Third: the prepared configuration replaces the remote file when the two differ; the
  result is \<^verbatim>\<open>conf_file_updated\<close>.
\<close>

definition chrony_deploy_config :: "env \<Rightarrow> ssh_client_obj \<Rightarrow> bool m" where
  "chrony_deploy_config env client =
     thn (log ''debug'' ''obtaining clock servers from config file'')
     (let filename = ''/etc/chrony.conf'';
          config_file = chrony_config_file env
      in
      bnd (run_command env client cat_chrony_conf) (\<lambda>old.
      let old_conf_file = output old in
      if config_file \<noteq> old_conf_file then
        thn (log ''debug''
               ''chrony's config file isn't equal to prepared one, overwriting it'')
       (bnd (run_command env client
               (''echo '' @ dq @ config_file @ dq @ '' > '' @ filename)) (\<lambda>r3.
        ret True))
      else ret False))"

text \<open>
  Fourth: chronyd is restarted when the file was replaced or, tested only when it was
  not, when the status of chronyd is not 0.
\<close>

definition chrony_restart :: "env \<Rightarrow> ssh_client_obj \<Rightarrow> bool \<Rightarrow> unit m" where
  "chrony_restart env client conf_file_updated =
     bnd (if conf_file_updated then ret True
          else bnd (run_command env client status_chronyd) (\<lambda>st. ret (rc st \<noteq> 0)))
       (\<lambda>do_restart.
     if do_restart then
       thn (log ''debug'' ''restarting chronyd'')
           (bnd (run_command env client restart_chronyd) (\<lambda>r4. ret ()))
     else ret ())"

text \<open>Fifth: \<^verbatim>\<open>chronyc tracking\<close> must succeed.\<close>

definition chrony_verify :: "env \<Rightarrow> ssh_client_obj \<Rightarrow> unit m" where
  "chrony_verify env client =
     bnd (run_command env client chronyc_tracking) (\<lambda>result.
     if rc result = 0 then log ''info'' ''chronyc is running correctly''
     else raise (ApplianceException
                   (''chrony doesn't work. Error message: '' @ output result)))"

definition fix_ntp_clock_on :: "env \<Rightarrow> ssh_client_obj \<Rightarrow> unit m" where
  "fix_ntp_clock_on env client =
     thn (chrony_installed env client)
    (thn (chrony_enable env client)
    (bnd (chrony_deploy_config env client) (\<lambda>conf_file_updated.
     thn (chrony_restart env client conf_file_updated)
         (chrony_verify env client))))"

text \<open>\<^verbatim>\<open>IPAppliance.fix_ntp_clock\<close>: log, take the SSH client, and do the above.\<close>

definition fix_ntp_clock :: "env \<Rightarrow> unit m" where
  "fix_ntp_clock env =
     thn (log_callback ''Fix NTP Clock: '' ''Fixing appliance clock'')
         (bnd (ssh_client env) (fix_ntp_clock_on env))"

section \<open>Enabling the database\<close>

text \<open>
  Modelled from the spec: \<^verbatim>\<open>clear_property_cache\<close> of \<^verbatim>\<open>utils/__init__.py\<close>, which is not
  among the sources. It invalidates the named cached properties of the instance, so that
  the next read computes them again. The module calls it for \<^verbatim>\<open>db\<close> and for
  \<^verbatim>\<open>configuration_details\<close> with \<^verbatim>\<open>zone_description\<close>.
\<close>

definition clear_property_cache_db :: "unit m" where
  "clear_property_cache_db = modify (\<lambda>s. s\<lparr>db_cache := None\<rparr>)"

definition server_details_changed :: "unit m" where
  "server_details_changed =
     modify (\<lambda>s. s\<lparr>configuration_details_cache := None, zone_description_cache := None\<rparr>)"

text \<open>
  \<^verbatim>\<open>IPAppliance.db\<close>, a cached property: \<^verbatim>\<open>db.Db(self.db_address)\<close>, a new handle on the
  store at the database address.
\<close>

definition db :: "env \<Rightarrow> db_handle m" where
  "db env =
     cached_property db_cache (\<lambda>v s. s\<lparr>db_cache := v\<rparr>)
       (bnd (db_address env) (\<lambda>dba.
        bnd (gets next_oid) (\<lambda>oid.
        thn (modify (\<lambda>s. s\<lparr>next_oid := oid + 1\<rparr>))
            (ret \<lparr>db_hostname = dba, db_oid = oid\<rparr>))))"

text \<open>\<^verbatim>\<open>IPAppliance.has_cli\<close>.\<close>

definition has_cli :: "env \<Rightarrow> bool m" where
  "has_cli env =
     bnd (ssh_client env) (\<lambda>client.
     bnd (run_command env client ''ls -l /bin/appliance_console_cli'') (\<lambda>result.
     if rc result = 0 then ret True else ret False))"

text \<open>\<^verbatim>\<open>x or default\<close> for an optional string argument.\<close>

definition or_default :: "string option \<Rightarrow> string \<Rightarrow> string" where
  "or_default x dflt = (case x of None \<Rightarrow> dflt | Some v \<Rightarrow> if v = [] then dflt else v)"

text \<open>
  \<^verbatim>\<open>IPAppliance.enable_internal_db(region=0, key_address=None, db_password=None,
  ssh_password=None)\<close>. It returns \<^verbatim>\<open>(status, out)\<close> of the enabling command.
\<close>

definition enable_internal_db ::
    "env \<Rightarrow> int \<Rightarrow> string option \<Rightarrow> string option \<Rightarrow> string option \<Rightarrow> (int \<times> string) m" where
  "enable_internal_db env region key_address db_password ssh_password =
     bnd (gets address) (\<lambda>addr.
     thn (log_callback ''Enable internal DB: ''
            (''Enabling internal DB (region '' @ str_int region @ '') on '' @ addr @ ''.''))
    (thn (modify (\<lambda>s. s\<lparr>db_address_cache := Some addr\<rparr>))
    (thn clear_property_cache_db
    (bnd (ssh_client env) (\<lambda>client.
     let db_password1 = or_default db_password (cred_db_password env);
         ssh_password1 = or_default ssh_password (cred_ssh_password env)
     in
     bnd (has_cli env) (\<lambda>cli.
     if cli then
       (if key_address \<noteq> None \<and> key_address \<noteq> Some [] then
          bnd (run_command env client
                 (''appliance_console_cli --region '' @ str_int region @
                  '' --internal --fetch-key '' @ or_default key_address [] @
                  '' -p '' @ db_password1 @ '' -a '' @ ssh_password1)) (\<lambda>r.
          ret (rc r, output r))
        else
          bnd (run_command env client
                 (''appliance_console_cli --region '' @ str_int region @
                  '' --internal --force-key -p '' @ db_password1)) (\<lambda>r.
          ret (rc r, output r)))
     else
       (let rb_name = load_data_file env ''enable-internal-db.rbt''
                        [(''miq_lib'', ''/var/www/miq/lib''), (''region'', str_int region),
                         (''postgres_version'', ''rh-postgresql95'')]
        in
        bnd (gets trace) (\<lambda>tr.
        let remote_file = ''/tmp/'' @ gen_alphanumeric env tr in
        thn (put_file client rb_name remote_file)
       (bnd (run_command env client (''ruby '' @ remote_file)) (\<lambda>r.
        bnd (run_command env client (''rm '' @ remote_file)) (\<lambda>r2.
        ret (rc r, output r))))))))))))"

text \<open>
  \<^verbatim>\<open>IPAppliance.enable_external_db(db_address, region=0, db_name=None, db_username=None,
  db_password=None)\<close>. The argument \<open>new_db_address\<close> is the source's \<^verbatim>\<open>db_address\<close>. A
  status other than 0 is logged with the output and raised as \<^verbatim>\<open>ApplianceException\<close>.
\<close>

definition enable_external_db ::
    "env \<Rightarrow> string \<Rightarrow> int \<Rightarrow> string option \<Rightarrow> string option \<Rightarrow> string option \<Rightarrow>
     (int \<times> string) m" where
  "enable_external_db env new_db_address region db_name db_username db_password =
     bnd (gets address) (\<lambda>addr.
     thn (log_callback ''Enable external DB: ''
            (''Enabling external DB (db_address '' @ new_db_address @ '', region '' @
             str_int region @ '') on '' @ addr @ ''.''))
    (thn (modify (\<lambda>s. s\<lparr>db_address_cache := Some new_db_address\<rparr>))
    (thn clear_property_cache_db
    (let db_name1 = or_default db_name ''vmdb_production'';
         db_username1 = or_default db_username (cred_db_username env);
         db_password1 = or_default db_password (cred_db_password env)
     in
     bnd (ssh_client env) (\<lambda>client.
     bnd (has_cli env) (\<lambda>cli.
     bnd (if cli then
            bnd (db_address env) (\<lambda>dba.
            let master_client = client_call client dba in
            bnd (gets trace) (\<lambda>tr.
            let rand_filename = ''/tmp/v2_key_'' @ gen_alphanumeric env tr in
            thn (get_file master_client ''/var/www/miq/vmdb/certs/v2_key'' rand_filename)
           (thn (put_file client rand_filename ''/var/www/miq/vmdb/certs/v2_key'')
           (bnd (db_address env) (\<lambda>dba2.
            bnd (run_command env client
                   (''appliance_console_cli --hostname '' @ dba2 @ '' --region '' @
                    str_int region @ '' --dbname '' @ db_name1 @ '' --username '' @
                    db_username1 @ '' --password '' @ db_password1)) (\<lambda>r.
            ret (rc r, output r)))))))
          else
            bnd (db_address env) (\<lambda>dba.
            let rb_name = load_data_file env ''enable-internal-db.rbt''
                            [(''miq_lib'', ''/var/www/miq/lib''), (''host'', dba),
                             (''region'', str_int region), (''database'', db_name1),
                             (''username'', db_username1), (''password'', db_password1)]
            in
            bnd (gets trace) (\<lambda>tr.
            let remote_file = ''/tmp/'' @ gen_alphanumeric env tr in
            thn (put_file client rb_name remote_file)
           (bnd (run_command env client (''ruby '' @ remote_file)) (\<lambda>r.
            bnd (run_command env client (''rm '' @ remote_file)) (\<lambda>r2.
            ret (rc r, output r)))))))
       (\<lambda>(status, out).
     if status \<noteq> 0 then
       thn (log ''error'' ''error enabling external db'')
      (thn (log ''error'' out)
      (let msg = ''Appliance '' @ addr @ '' failed to enable external DB running on '' @
                 new_db_address
       in
       thn (log_callback ''Enable external DB: '' msg)
           (raise (ApplianceException msg))))
     else ret (status, out))))))))"

section \<open>The relational store\<close>

text \<open>
  Modelled from the spec: the handle of \<^verbatim>\<open>utils/db.py\<close>, which is not among the sources.
  \<^verbatim>\<open>db['name']\<close> looks a table up and raises \<^verbatim>\<open>KeyError\<close> when the store has none of
  that name; a query yields the rows of the table at the time it runs. \<open>table\<close> selects the
  table from the contents of the store.
\<close>

definition db_getitem ::
    "env \<Rightarrow> db_handle \<Rightarrow> (db_contents \<Rightarrow> 'r list option) \<Rightarrow> string \<Rightarrow> unit m" where
  "db_getitem env d table name =
     bnd (gets trace) (\<lambda>tr.
       case table (store_answer env tr (db_hostname d)) of
         None \<Rightarrow> raise (KeyError name)
       | Some rows \<Rightarrow> ret ())"

definition db_query ::
    "env \<Rightarrow> db_handle \<Rightarrow> (db_contents \<Rightarrow> 'r list option) \<Rightarrow> string \<Rightarrow> 'r list m" where
  "db_query env d table name =
     bnd (gets trace) (\<lambda>tr.
     thn (emit (DbQuery (db_hostname d) name))
       (case table (store_answer env tr (db_hostname d)) of
          None \<Rightarrow> raise (PyException (''no such table: '' @ name))
        | Some rows \<Rightarrow> ret rows))"

text \<open>A query that joins two tables reads both at the same time.\<close>

definition db_query_join ::
    "env \<Rightarrow> db_handle \<Rightarrow> (db_contents \<Rightarrow> 'r list option) \<Rightarrow>
     (db_contents \<Rightarrow> 'q list option) \<Rightarrow> string \<Rightarrow> ('r list \<times> 'q list) m" where
  "db_query_join env d table1 table2 name =
     bnd (gets trace) (\<lambda>tr.
     thn (emit (DbQuery (db_hostname d) name))
       (case table1 (store_answer env tr (db_hostname d)) of
          None \<Rightarrow> raise (PyException (''no such table: '' @ name))
        | Some rows1 \<Rightarrow>
            (case table2 (store_answer env tr (db_hostname d)) of
               None \<Rightarrow> raise (PyException (''no such table: '' @ name))
             | Some rows2 \<Rightarrow> ret (rows1, rows2))))"

section \<open>Server identity\<close>

text \<open>\<^verbatim>\<open>IPAppliance.guid\<close>, a cached property: the content of the GUID file.\<close>

definition guid :: "env \<Rightarrow> string m" where
  "guid env =
     cached_property guid_cache (\<lambda>v s. s\<lparr>guid_cache := v\<rparr>)
       (bnd (ssh_client env) (\<lambda>client.
        bnd (run_command env client ''cat /var/www/miq/vmdb/GUID'') (\<lambda>result.
        ret (output result))))"

text \<open>
  \<^verbatim>\<open>IPAppliance.evm_id\<close>, a cached property: the id of the first server row whose GUID
  is the appliance's; \<^verbatim>\<open>IndexError\<close> when there is none.
\<close>

definition evm_id :: "env \<Rightarrow> int m" where
  "evm_id env =
     cached_property evm_id_cache (\<lambda>v s. s\<lparr>evm_id_cache := v\<rparr>)
       (bnd (db env) (\<lambda>d.
        thn (db_getitem env d miq_servers ''miq_servers'')
       (bnd (db env) (\<lambda>d2.
        bnd (guid env) (\<lambda>g.
        bnd (db_query env d2 miq_servers ''miq_servers'') (\<lambda>rows.
        case filter (\<lambda>row. s_guid row = g) rows of
          [] \<Rightarrow> raise (IndexError ''miq_servers'')
        | row # others \<Rightarrow> ret (s_id row)))))))"

definition SEQ_FACT :: int where
  "SEQ_FACT = 1000000000000"

text \<open>
  The \<^verbatim>\<open>server_filter\<close> inside \<^verbatim>\<open>configuration_details\<close>: the id lies in the region's
  range, and the row's address is the database host or its GUID is the appliance's. The
  GUID is read only when the address differs.
\<close>

definition server_filter :: "env \<Rightarrow> int \<Rightarrow> int \<Rightarrow> server_row \<Rightarrow> bool m" where
  "server_filter env reg_min reg_max server =
     bnd (db env) (\<lambda>d.
     bnd (if s_ipaddress server = db_hostname d then ret True
          else bnd (guid env) (\<lambda>g. ret (s_guid server = g))) (\<lambda>matches.
     ret (s_id server \<ge> reg_min \<and> s_id server < reg_max \<and> matches)))"

text \<open>\<^verbatim>\<open>filter(f, xs)\<close> of Python 2 with a function that runs commands.\<close>

primrec filter_m :: "('a \<Rightarrow> bool m) \<Rightarrow> 'a list \<Rightarrow> 'a list m" where
  "filter_m f [] = ret []"
| "filter_m f (x # xs) =
     bnd (f x) (\<lambda>keep.
     bnd (filter_m f xs) (\<lambda>rest. ret (if keep then x # rest else rest)))"

text \<open>
  \<^verbatim>\<open>IPAppliance.configuration_details\<close>, a cached property: first its body, then the
  property. The loop over the regions returns in its first round, so only the first
  region row counts. The result is \<^verbatim>\<open>None\<close>
  (no region, or a \<^verbatim>\<open>KeyError\<close>), or the tuple \<^verbatim>\<open>(region, name, id, zone id)\<close>, which is four
  times \<^verbatim>\<open>None\<close> when no server was chosen. The product with the float \<^verbatim>\<open>SEQ_FACT\<close> is
  taken over the integers.
\<close>

definition configuration_details_body ::
    "env \<Rightarrow> (int option \<times> string option \<times> int option \<times> int option) option m" where
  "configuration_details_body env =
       (catch
          (bnd (db env) (\<lambda>d.
           thn (db_getitem env d miq_servers ''miq_servers'')
          (bnd (db env) (\<lambda>d1.
           bnd (db env) (\<lambda>d2.
           thn (db_getitem env d2 miq_regions ''miq_regions'')
          (bnd (db_query env d1 miq_regions ''miq_regions'') (\<lambda>regions.
           case regions of
             [] \<Rightarrow> ret None
           | region # other_regions \<Rightarrow>
               (let reg_min = r_region region * SEQ_FACT;
                    reg_max = reg_min + SEQ_FACT
                in
                bnd (db env) (\<lambda>d3.
                bnd (db_query env d3 miq_servers ''miq_servers'') (\<lambda>all_servers.
                bnd (if length all_servers = 1 then
                       ret (case all_servers of [] \<Rightarrow> None | only # others \<Rightarrow> Some only)
                     else
                       bnd (filter_m (server_filter env reg_min reg_max) all_servers) (\<lambda>servers.
                       ret (case servers of [] \<Rightarrow> None | first # others \<Rightarrow> Some first)))
                  (\<lambda>server.
                case server of
                  Some row \<Rightarrow>
                    ret (Some (Some (r_region region), Some (s_name row), Some (s_id row),
                               Some (s_zone_id row)))
                | None \<Rightarrow> ret (Some (None, None, None, None)))))))))))))
          (\<lambda>e. case e of KeyError k \<Rightarrow> Some (ret None) | _ \<Rightarrow> None))"

definition configuration_details ::
    "env \<Rightarrow> (int option \<times> string option \<times> int option \<times> int option) option m" where
  "configuration_details env =
     cached_property configuration_details_cache (\<lambda>v s. s\<lparr>configuration_details_cache := v\<rparr>)
       (configuration_details_body env)"

text \<open>
  \<^verbatim>\<open>server_id\<close>, \<^verbatim>\<open>server_region\<close> and \<^verbatim>\<open>server_name\<close>: an element of the tuple;
  indexing \<^verbatim>\<open>None\<close> raises \<^verbatim>\<open>TypeError\<close>, which each of them turns into \<^verbatim>\<open>None\<close>.
\<close>

definition type_error_is_None :: "exn \<Rightarrow> 'a option m option" where
  "type_error_is_None e = (case e of TypeError x \<Rightarrow> Some (ret None) | _ \<Rightarrow> None)"

definition server_id :: "env \<Rightarrow> int option m" where
  "server_id env =
     catch
       (bnd (configuration_details env) (\<lambda>details.
          case details of
            None \<Rightarrow> raise (TypeError ''NoneType'')
          | Some (region, name, sid, zone) \<Rightarrow> ret sid))
       type_error_is_None"

definition server_region :: "env \<Rightarrow> int option m" where
  "server_region env =
     catch
       (bnd (configuration_details env) (\<lambda>details.
          case details of
            None \<Rightarrow> raise (TypeError ''NoneType'')
          | Some (region, name, sid, zone) \<Rightarrow> ret region))
       type_error_is_None"

definition server_name :: "env \<Rightarrow> string option m" where
  "server_name env =
     catch
       (bnd (configuration_details env) (\<lambda>details.
          case details of
            None \<Rightarrow> raise (TypeError ''NoneType'')
          | Some (region, name, sid, zone) \<Rightarrow> ret name))
       type_error_is_None"

section \<open>Server roles\<close>

text \<open>\<^verbatim>\<open>k in x\<close> for a parsed YAML value \<open>x\<close>.\<close>

definition yaml_contains :: "string \<Rightarrow> yaml \<Rightarrow> bool m" where
  "yaml_contains k x =
     (case x of
        YDict kvs \<Rightarrow> ret (k \<in> set (map fst kvs))
      | YStr content \<Rightarrow> ret (str_in k content)
      | _ \<Rightarrow> raise (TypeError ''not iterable''))"

text \<open>
  \<^verbatim>\<open>IPAppliance.is_storage_enabled\<close>, a cached property:
  \<^verbatim>\<open>'storage' in self.get_yaml_config().get('product', {})\<close>.
\<close>

definition is_storage_enabled :: "env \<Rightarrow> bool m" where
  "is_storage_enabled env =
     cached_property is_storage_enabled_cache (\<lambda>v s. s\<lparr>is_storage_enabled_cache := v\<rparr>)
       (bnd (get_yaml_config env) (\<lambda>config.
        bnd (yaml_get config ''product'' (YDict [])) (\<lambda>product.
        yaml_contains ''storage'' product)))"

text \<open>
  The first loop of the \<^verbatim>\<open>server_roles\<close> getter, over the rest of the keys of \<^verbatim>\<open>roles\<close>:
  while storage is not enabled, every key that starts with \<^verbatim>\<open>storage\<close> and the key
  \<^verbatim>\<open>vmdb_storage_bridge\<close> are added to \<^verbatim>\<open>dead_keys\<close>.
\<close>

primrec collect_dead_keys :: "env \<Rightarrow> string list \<Rightarrow> string list \<Rightarrow> string list m" where
  "collect_dead_keys env [] dead_keys = ret dead_keys"
| "collect_dead_keys env (key # rest) dead_keys =
     bnd (is_storage_enabled env) (\<lambda>enabled.
       collect_dead_keys env rest
         (if \<not> enabled then
            dead_keys @ (if startswith key ''storage'' then [key] else []) @
            (if key = ''vmdb_storage_bridge'' then [key] else [])
          else dead_keys))"

text \<open>
  A Python dictionary is a list of items with distinct keys. \<^verbatim>\<open>del d[k]\<close> inside
  \<^verbatim>\<open>try ... except KeyError: pass\<close> removes the key when it is there.
\<close>

definition del_key :: "string \<Rightarrow> (string \<times> 'v) list \<Rightarrow> (string \<times> 'v) list" where
  "del_key k d = filter (\<lambda>item. fst item \<noteq> k) d"

definition dict_eq :: "(string \<times> 'v) list \<Rightarrow> (string \<times> 'v) list \<Rightarrow> bool" where
  "dict_eq d1 d2 = (set d1 = set d2)"

text \<open>
  The \<^verbatim>\<open>server_roles\<close> getter, first half: every role name of the store with whether an
  active assignment to this server exists. The order of a Python 2 set or dictionary is
  not specified; the model keeps the order of the query.
\<close>

definition read_roles :: "env \<Rightarrow> (string \<times> bool) list m" where
  "read_roles env =
     bnd (db env) (\<lambda>d_asr.
     thn (db_getitem env d_asr assigned_server_roles ''assigned_server_roles'')
    (bnd (db env) (\<lambda>d_sr.
     thn (db_getitem env d_sr server_roles_table ''server_roles'')
    (bnd (db env) (\<lambda>d1.
     bnd (db_query env d1 server_roles_table ''server_roles'') (\<lambda>sr_rows.
     let all_role_names = remdups (map sr_name sr_rows) in
     bnd (db env) (\<lambda>d2.
     bnd (evm_id env) (\<lambda>this_server.
     bnd (db_query_join env d2 server_roles_table assigned_server_roles
            ''server_roles JOIN assigned_server_roles'') (\<lambda>(sr_rows2, asr_rows).
     let active_roles =
           concat (map (\<lambda>sr. map (\<lambda>asr. sr_name sr)
                     (filter (\<lambda>asr. asr_server_role_id asr = sr_id sr \<and>
                                     asr_miq_server_id asr = this_server \<and> asr_active asr)
                        asr_rows)) sr_rows2)
     in
     ret (map (\<lambda>role_name. (role_name, role_name \<in> set active_roles))
            all_role_names))))))))))"

text \<open>
  Second half: the dead keys are collected and deleted from \<^verbatim>\<open>roles\<close>.
\<close>

definition suppress_dead_keys :: "env \<Rightarrow> (string \<times> bool) list \<Rightarrow> (string \<times> bool) list m" where
  "suppress_dead_keys env roles =
     bnd (collect_dead_keys env (map fst roles) [''database_owner'', ''vdi_inventory''])
       (\<lambda>dead_keys. ret (fold del_key dead_keys roles))"

definition server_roles :: "env \<Rightarrow> (string \<times> bool) list m" where
  "server_roles env = bnd (read_roles env) (suppress_dead_keys env)"

text \<open>
  \<^verbatim>\<open>yaml['server']['role'] = role_text\<close> on the parsed configuration.
\<close>

definition dict_set :: "string \<Rightarrow> 'v \<Rightarrow> (string \<times> 'v) list \<Rightarrow> (string \<times> 'v) list" where
  "dict_set k v d =
     (if k \<in> set (map fst d) then map (\<lambda>item. if fst item = k then (k, v) else item) d
      else d @ [(k, v)])"

definition set_server_role :: "yaml \<Rightarrow> string \<Rightarrow> yaml m" where
  "set_server_role config role_text =
     (case config of
        YDict kvs \<Rightarrow>
          (case map_of kvs ''server'' of
             None \<Rightarrow> raise (KeyError ''server'')
           | Some (YDict server_kvs) \<Rightarrow>
               ret (YDict (dict_set ''server''
                             (YDict (dict_set ''role'' (YStr role_text) server_kvs)) kvs))
           | Some other \<Rightarrow> raise (TypeError ''item assignment''))
      | _ \<Rightarrow> raise (TypeError ''not subscriptable''))"

text \<open>
  \<^verbatim>\<open>IPAppliance.set_yaml_config\<close>: dump the document to a temporary file, upload it and
  the script that applies it, run the script; on success the caches that derive from the
  configuration are cleared, otherwise an exception is raised.
\<close>

definition set_yaml_config :: "env \<Rightarrow> yaml \<Rightarrow> unit m" where
  "set_yaml_config env data_dict =
     bnd (gets trace) (\<lambda>tr.
     let temp_yaml = named_temporary_file env tr;
         dest_yaml = ''/tmp/conf.yaml''
     in
     thn (emit (YamlDump temp_yaml data_dict))
    (bnd (ssh_client env) (\<lambda>client.
     thn (put_file client temp_yaml dest_yaml)
    (let dest_ruby = ''/tmp/set_conf.rb'';
         temp_ruby = load_data_file env ''cfmedb_set_config.rbt'' [(''config_file'', dest_yaml)]
     in
     bnd (ssh_client env) (\<lambda>client2.
     thn (put_file client2 temp_ruby dest_ruby)
    (bnd (ssh_client env) (\<lambda>client3.
     bnd (run_rails_command env client3 dest_ruby) (\<lambda>result.
     if rc result = 0 then server_details_changed
     else raise (PyException (''Unable to set config: '' @ str_int (rc result) @ '':'' @
                              sq @ output result @ sq))))))))))"

text \<open>
  The \<^verbatim>\<open>server_roles\<close> setter: nothing to do when the roles read equal the roles asked
  for; otherwise the list of the true roles is written to the configuration and the
  method waits until the roles read are the roles asked for.
\<close>

definition server_roles_setter :: "env \<Rightarrow> (string \<times> bool) list \<Rightarrow> unit m" where
  "server_roles_setter env roles =
     bnd (server_roles env) (\<lambda>current.
     if dict_eq current roles then log ''debug'' '' Roles already match, returning...''
     else
       bnd (get_yaml_config env) (\<lambda>yaml.
       bnd (set_server_role yaml (join '','' (map fst (filter snd roles)))) (\<lambda>yaml1.
       thn (set_yaml_config env yaml1)
           (wait_for env (bnd (server_roles env) (\<lambda>now. ret (dict_eq now roles))) 300 15))))"

section \<open>Observations\<close>

text \<open>
  \<open>keeps obs f\<close>: running \<open>f\<close> never changes what \<open>obs\<close> observes of the state, whether \<open>f\<close>
  returns or raises. With \<open>obs\<close> a filter of the trace it says that \<open>f\<close> causes no event of
  a kind.
\<close>

definition keeps :: "(astate \<Rightarrow> 'b) \<Rightarrow> 'a m \<Rightarrow> bool" where
  "keeps obs f = (\<forall>s. obs (snd (f s)) = obs s)"

text \<open>The events that run a given command line, on any host.\<close>

fun runs :: "string \<Rightarrow> event \<Rightarrow> bool" where
  "runs c (RunCommand h c') = (c' = c)"
| "runs c e = False"

text \<open>
  The events of writing a configuration: the dump of a document to a local file and the
  upload of a file. \<^verbatim>\<open>set_yaml_config\<close> starts with both.
\<close>

fun writes :: "event \<Rightarrow> bool" where
  "writes (PutFile h l r) = True"
| "writes (YamlDump f y) = True"
| "writes e = False"

text \<open>The HTTP probes and the sleeps of a trace.\<close>

fun probe_or_sleep :: "event \<Rightarrow> bool" where
  "probe_or_sleep (HttpGet u) = True"
| "probe_or_sleep (Sleep n) = True"
| "probe_or_sleep e = False"

text \<open>One round of the loop of \<^verbatim>\<open>is_web_ui_running\<close>: a probe and the sleep after it.\<close>

definition probe_then_sleep :: "env \<Rightarrow> bool m" where
  "probe_then_sleep env =
     bnd (check_appliance_ui_wait_fn env) (\<lambda>running. thn (emit (Sleep 3)) (ret running))"

text \<open>The restarts of chronyd in the trace of a state.\<close>

abbreviation (input) restarts :: "astate \<Rightarrow> event list" where
  "restarts s \<equiv> filter (runs restart_chronyd) (trace s)"

text \<open>
  What the database caches of a state hold, with the identity counter and the address.
\<close>

definition cache_view :: "astate \<Rightarrow> db_handle option \<times> string option \<times> nat \<times> string" where
  "cache_view s = (db_cache s, db_address_cache s, next_oid s, address s)"

text \<open>
  \<open>preserves I f\<close>: running \<open>f\<close> from a state where \<open>I\<close> holds leaves a state where \<open>I\<close> holds.
  \<open>returns_only Q f\<close>: whatever \<open>f\<close> returns satisfies \<open>Q\<close>.
\<close>

definition preserves :: "(astate \<Rightarrow> bool) \<Rightarrow> 'a m \<Rightarrow> bool" where
  "preserves I f = (\<forall>s. I s \<longrightarrow> I (snd (f s)))"

definition returns_only :: "('a \<Rightarrow> bool) \<Rightarrow> 'a m \<Rightarrow> bool" where
  "returns_only Q f = (\<forall>s v s'. f s = (Inr v, s') \<longrightarrow> Q v)"

text \<open>
  The command lines that enable the database: the console command or the generated Ruby
  script.
\<close>

definition enabling_command :: "string \<Rightarrow> bool" where
  "enabling_command c = (startswith c ''appliance_console_cli '' \<or> startswith c ''ruby '')"

text \<open>The writing events in the trace of a state.\<close>

abbreviation (input) written :: "astate \<Rightarrow> event list" where
  "written s \<equiv> filter writes (trace s)"

text \<open>
  The keys that the loop of the \<^verbatim>\<open>server_roles\<close> getter appends to \<^verbatim>\<open>dead_keys\<close> when
  storage is not enabled: \<^verbatim>\<open>key.startswith('storage')\<close> or \<^verbatim>\<open>key == 'vmdb_storage_bridge'\<close>.
\<close>

definition storage_key :: "string \<Rightarrow> bool" where
  "storage_key k = (startswith k ''storage'' \<or> k = ''vmdb_storage_bridge'')"

text \<open>
  What \<^verbatim>\<open>server_filter\<close> of \<^verbatim>\<open>configuration_details\<close> decides for a server row once the
  database handle \<open>d\<close> and the GUID \<open>g\<close> of the appliance are known: the id lies in the
  range of the region and the row has the host name of the database or that GUID.
\<close>

definition server_matches :: "db_handle \<Rightarrow> string \<Rightarrow> int \<Rightarrow> server_row \<Rightarrow> bool" where
  "server_matches d g region server =
     (s_id server \<ge> region * SEQ_FACT \<and> s_id server < region * SEQ_FACT + SEQ_FACT \<and>
      (s_ipaddress server = db_hostname d \<or> s_guid server = g))"

section \<open>Example inputs\<close>

text \<open>An empty stack over a store in which object 2 steals the browser session.\<close>

definition stack0 :: stack_state where
  "stack0 = \<lparr>items = [],
             objs = (\<lambda>r. \<lparr>obj_address = (if r = 1 then ''10.0.0.1'' else ''10.0.0.2''),
                          browser_steal = (r = 2)\<rparr>),
             stack_trace = []\<rparr>"

definition capture0 :: capture_env where
  "capture0 = \<lparr>imports_ok = False, running_under_sprout = False,
               take_screenshot = (None, None), capture_raises = None\<rparr>"

text \<open>
  Collaborators that answer every command with status 0 and every probe with status 200,
  over an empty store.
\<close>

definition env0 :: env where
  "env0 = \<lparr>run_answer = (\<lambda>tr h c. \<lparr>rc = 0, output = []\<rparr>),
           rails_answer = (\<lambda>tr h c. \<lparr>rc = 0, output = []\<rparr>),
           net_check_answer = (\<lambda>tr h. True),
           transport_raises = (\<lambda>tr. False),
           http_answer = (\<lambda>tr u. Response 200),
           yaml_load = (\<lambda>doc. Inr (YDict [])),
           store_answer = (\<lambda>tr h. \<lparr>miq_regions = Some [], miq_servers = Some [],
                                     server_roles_table = Some [],
                                     assigned_server_roles = Some []\<rparr>),
           gen_alphanumeric = (\<lambda>tr. ''x7Kq''),
           load_data_file = (\<lambda>template repl. ''/tmp/tmpfile''),
           named_temporary_file = (\<lambda>tr. ''/tmp/tmpyaml''),
           cred_ssh_password = ''secret'',
           cred_db_username = ''root'',
           cred_db_password = ''smartvm'',
           clock_servers = [''clock.example.com''],
           max_attempts = (\<lambda>num_sec delay. num_sec div delay + 1)\<rparr>"

text \<open>
  An appliance with an internal database whose SSH client and database address are
  already cached.
\<close>

definition state0 :: astate where
  "state0 = \<lparr>address = ''10.0.0.1'', hostname = ''10.0.0.1'', url = ''https://10.0.0.1/'',
             container = None, openshift_creds = [], is_pod = False, db_host = None,
             db_ssh_client_attr = None,
             ssh_client_cache = Some \<lparr>client_hostname = ''10.0.0.1'', client_container = None,
                                       client_is_pod = False, client_key_auth = False\<rparr>,
             get_host_address_cache = None,
             db_address_cache = Some ''10.0.0.1'',
             db_cache = None, guid_cache = None, evm_id_cache = None,
             is_storage_enabled_cache = None, configuration_details_cache = None,
             zone_description_cache = None, trace = [], next_oid = 0\<rparr>"

text \<open>A web UI that answers the first probe only.\<close>

definition env_mixed :: env where
  "env_mixed = env0\<lparr>http_answer := (\<lambda>tr u. if tr = [] then Response 200 else Response 503)\<rparr>"

text \<open>The states after the first, second and third round of probing that web UI.\<close>

definition web_s1 :: astate where
  "web_s1 = snd (probe_then_sleep env_mixed state0)"

definition web_s2 :: astate where
  "web_s2 = snd (probe_then_sleep env_mixed web_s1)"

definition web_s3 :: astate where
  "web_s3 = snd (probe_then_sleep env_mixed web_s2)"

text \<open>A database that is offline, and one that is online but has no database yet.\<close>

definition env_offline :: env where
  "env_offline = env0\<lparr>run_answer := (\<lambda>tr h c. \<lparr>rc = 2, output = ''could not connect''\<rparr>)\<rparr>"

definition env_nodb :: env where
  "env_nodb = env0\<lparr>run_answer := (\<lambda>tr h c. \<lparr>rc = (if tr = [] then 0 else 1), output = []\<rparr>)\<rparr>"

text \<open>
  A remote side whose chrony configuration is the prepared one, with chronyd running;
  the same with chronyd stopped; and one where \<^verbatim>\<open>chronyc tracking\<close> fails.
\<close>

definition env_synced :: env where
  "env_synced = env0\<lparr>run_answer := (\<lambda>tr h c.
     \<lparr>rc = 0, output = (if c = cat_chrony_conf then chrony_config_file env0 else [])\<rparr>)\<rparr>"

definition env_stopped :: env where
  "env_stopped = env0\<lparr>run_answer := (\<lambda>tr h c.
     \<lparr>rc = (if c = status_chronyd then 3 else 0),
      output = (if c = cat_chrony_conf then chrony_config_file env0 else [])\<rparr>)\<rparr>"

definition env_untracked :: env where
  "env_untracked = env0\<lparr>run_answer := (\<lambda>tr h c.
     \<lparr>rc = (if c = chronyc_tracking then 1 else 0), output = ''506 Cannot talk to daemon''\<rparr>)\<rparr>"

text \<open>An appliance that has used its database handle before.\<close>

definition old_handle :: db_handle where
  "old_handle = \<lparr>db_hostname = ''10.0.0.1'', db_oid = 0\<rparr>"

definition state_db :: astate where
  "state_db = state0\<lparr>db_cache := Some old_handle, next_oid := 1\<rparr>"

text \<open>A remote side on which every enabling command fails.\<close>

definition env_db_fail :: env where
  "env_db_fail = env0\<lparr>run_answer := (\<lambda>tr h c.
     \<lparr>rc = (if enabling_command c then 1 else 0),
      output = ''FATAL: password authentication failed''\<rparr>)\<rparr>"

text \<open>
  A store with one region, one server and six roles, three of them assigned; the GUID file
  of the appliance holds the GUID of that server.
\<close>

definition store0 :: db_contents where
  "store0 = \<lparr>miq_regions = Some [\<lparr>r_region = 0\<rparr>],
             miq_servers = Some [\<lparr>s_id = 7, s_name = ''EVM'', s_ipaddress = ''10.0.0.1'',
                                  s_guid = ''6dc4af9c'', s_zone_id = 1\<rparr>],
             server_roles_table =
               Some [\<lparr>sr_id = 1, sr_name = ''automate''\<rparr>,
                     \<lparr>sr_id = 2, sr_name = ''database_owner''\<rparr>,
                     \<lparr>sr_id = 3, sr_name = ''storage_inventory''\<rparr>,
                     \<lparr>sr_id = 4, sr_name = ''vmdb_storage_bridge''\<rparr>,
                     \<lparr>sr_id = 5, sr_name = ''vdi_inventory''\<rparr>,
                     \<lparr>sr_id = 6, sr_name = ''ems_inventory''\<rparr>],
             assigned_server_roles =
               Some [\<lparr>asr_server_role_id = 1, asr_miq_server_id = 7, asr_active = True\<rparr>,
                     \<lparr>asr_server_role_id = 6, asr_miq_server_id = 7, asr_active = False\<rparr>,
                     \<lparr>asr_server_role_id = 3, asr_miq_server_id = 8, asr_active = True\<rparr>]\<rparr>"

definition env_store :: env where
  "env_store = env0\<lparr>store_answer := (\<lambda>tr h. store0),
                    run_answer := (\<lambda>tr h c. \<lparr>rc = 0, output = ''6dc4af9c''\<rparr>)\<rparr>"

text \<open>The server row of that store and the handle on the database of \<open>state0\<close>.\<close>

definition server0 :: server_row where
  "server0 = \<lparr>s_id = 7, s_name = ''EVM'', s_ipaddress = ''10.0.0.1'', s_guid = ''6dc4af9c'',
               s_zone_id = 1\<rparr>"

definition handle0 :: db_handle where
  "handle0 = \<lparr>db_hostname = ''10.0.0.1'', db_oid = 0\<rparr>"

text \<open>
  A store whose only server row has another address and another GUID than the appliance.
\<close>

definition foreign_server :: server_row where
  "foreign_server = \<lparr>s_id = 7, s_name = ''EVM'', s_ipaddress = ''192.168.0.5'',
                      s_guid = ''0b5e11aa'', s_zone_id = 1\<rparr>"

definition env_foreign :: env where
  "env_foreign = env0\<lparr>store_answer := (\<lambda>tr h. \<lparr>miq_regions = Some [\<lparr>r_region = 0\<rparr>],
                                                   miq_servers = Some [foreign_server],
                                                   server_roles_table = Some [],
                                                   assigned_server_roles = Some []\<rparr>),
                      run_answer := (\<lambda>tr h c. \<lparr>rc = 0, output = ''6dc4af9c''\<rparr>)\<rparr>"

text \<open>
  A store with two server rows, the second with the address of the appliance, read by an
  appliance that knows its GUID already.
\<close>

definition local_server :: server_row where
  "local_server = \<lparr>s_id = 8, s_name = ''EVM2'', s_ipaddress = ''10.0.0.1'',
                    s_guid = ''6dc4af9c'', s_zone_id = 1\<rparr>"

definition env_two :: env where
  "env_two = env0\<lparr>store_answer := (\<lambda>tr h. \<lparr>miq_regions = Some [\<lparr>r_region = 0\<rparr>],
                                               miq_servers = Some [foreign_server, local_server],
                                               server_roles_table = Some [],
                                               assigned_server_roles = Some []\<rparr>)\<rparr>"

definition state_guid :: astate where
  "state_guid = state0\<lparr>guid_cache := Some ''6dc4af9c''\<rparr>"

section \<open>Verified properties: helper lemmas\<close>

lemmas monad_defs = bnd_def thn_def ret_def raise_def gets_def modify_def emit_def log_def
  catch_def cached_property_def run_command_def run_rails_command_def put_file_def get_file_def

lemmas example_defs = env0_def env_mixed_def state0_def

lemmas db_ready_defs = db_online_def db_has_database_def db_has_tables_def db_ssh_client_def
  is_db_internal_def db_address_def ssh_client_def

lemma items_stack_emit [simp]: "items (stack_emit e s) = items s"
  by (simp add: stack_emit_def)

lemma objs_stack_emit [simp]: "objs (stack_emit e s) = objs s"
  by (simp add: stack_emit_def)

lemma items_push [simp]: "items (push r s) = r # items s"
  by (simp add: push_def LocalStack_push_def Let_def)

lemma top_stack_Cons: "items s = r # rs \<Longrightarrow> top_stack s = Some r"
  by (simp add: top_stack_def)

lemma top_stack_Some: "top_stack s = Some r \<Longrightarrow> \<exists>rs. items s = r # rs"
  by (cases "items s") (simp_all add: top_stack_def)

lemma top_stack_None: "top_stack s = None \<longleftrightarrow> items s = []"
  by (cases "items s") (simp_all add: top_stack_def)

lemma pop_Cons:
  "items s = r # rs \<Longrightarrow> \<exists>s'. pop s = (Inr r, s') \<and> items s' = rs"
  by (simp add: pop_def LocalStack_pop_def Let_def)

lemma pop_Nil: "items s = [] \<Longrightarrow> pop s = (Inl (AttributeError ''address''), s)"
  by (simp add: pop_def LocalStack_pop_def)

lemma items_capture:
  "screenshot_capture_at_context_leave ce exc s = (raised, s1) \<Longrightarrow> items s1 = items s"
  by (auto simp: screenshot_capture_at_context_leave_def Let_def
           split: option.splits prod.splits if_splits)

lemma exit_scope_mismatch:
  assumes "items s = r # rs" and "r \<noteq> self"
  shows "\<exists>s'. exit_scope ce self exc s =
           (Some (AssertionError ''appliance stack inconsistent''), s') \<and> items s' = rs"
proof -
  obtain raised s1 where c: "screenshot_capture_at_context_leave ce exc s = (raised, s1)"
    by (cases "screenshot_capture_at_context_leave ce exc s")
  define s2 where
    "s2 = (if raised \<noteq> None then stack_emit (LogMsg ''exception'' ''taking a screenshot failed'') s1
           else s1)"
  have "items s2 = r # rs"
    using items_capture [OF c] assms(1) by (simp add: s2_def)
  then obtain s3 where "pop s2 = (Inr r, s3)" "items s3 = rs"
    using pop_Cons by blast
  then show ?thesis
    using c assms(2) by (simp add: exit_scope_def s2_def)
qed

lemma exit_scope_empty:
  assumes "items s = []"
  shows "fst (exit_scope ce self exc s) = Some (AttributeError ''address'')"
proof -
  obtain raised s1 where c: "screenshot_capture_at_context_leave ce exc s = (raised, s1)"
    by (cases "screenshot_capture_at_context_leave ce exc s")
  define s2 where
    "s2 = (if raised \<noteq> None then stack_emit (LogMsg ''exception'' ''taking a screenshot failed'') s1
           else s1)"
  have "items s2 = []"
    using items_capture [OF c] assms by (simp add: s2_def)
  then have "pop s2 = (Inl (AttributeError ''address''), s2)"
    by (rule pop_Nil)
  then show ?thesis
    using c by (simp add: exit_scope_def s2_def)
qed

lemma exit_scope_match:
  assumes "items s = self # rs"
  shows "\<exists>s'. exit_scope ce self exc s = (None, s') \<and> items s' = rs"
proof -
  obtain raised s1 where c: "screenshot_capture_at_context_leave ce exc s = (raised, s1)"
    by (cases "screenshot_capture_at_context_leave ce exc s")
  define s2 where
    "s2 = (if raised \<noteq> None then stack_emit (LogMsg ''exception'' ''taking a screenshot failed'') s1
           else s1)"
  have "items s2 = self # rs"
    using items_capture [OF c] assms by (simp add: s2_def)
  then obtain s3 where "pop s2 = (Inr self, s3)" "items s3 = rs"
    using pop_Cons by blast
  then show ?thesis
    using c by (simp add: exit_scope_def s2_def)
qed

lemma bnd_ret [simp]: "bnd (ret v) g = g v"
  by (rule ext) (simp add: bnd_def ret_def)

lemma bnd_raise [simp]: "bnd (raise e) g = raise e"
  by (rule ext) (simp add: bnd_def raise_def)

lemma bnd_assoc: "bnd (bnd f g) h = bnd f (\<lambda>v. bnd (g v) h)"
  by (rule ext) (simp add: bnd_def split: prod.splits sum.splits)

lemma thn_assoc: "bnd (thn f g) h = thn f (bnd g h)"
  by (simp add: thn_def bnd_assoc)

lemma bnd_Inr: "f s = (Inr v, s1) \<Longrightarrow> bnd f g s = g v s1"
  by (simp add: bnd_def)

lemma bnd_Inl: "f s = (Inl e, s1) \<Longrightarrow> bnd f g s = (Inl e, s1)"
  by (simp add: bnd_def)

named_theorems keeps_intros

lemma keeps_ret [keeps_intros]: "keeps obs (ret v)"
  by (simp add: keeps_def ret_def)

lemma keeps_raise [keeps_intros]: "keeps obs (raise e)"
  by (simp add: keeps_def raise_def)

lemma keeps_gets [keeps_intros]: "keeps obs (gets f)"
  by (simp add: keeps_def gets_def)

lemma keeps_modify: "(\<And>s. obs (g s) = obs s) \<Longrightarrow> keeps obs (modify g)"
  by (simp add: keeps_def modify_def)

lemma keeps_bnd [keeps_intros]:
  assumes "keeps obs f" and "\<And>v. keeps obs (g v)"
  shows "keeps obs (bnd f g)"
proof -
  have "obs (snd (bnd f g s)) = obs s" for s
  proof (cases "f s")
    case (Pair r s1)
    have o1: "obs s1 = obs s"
      using assms(1) Pair by (metis keeps_def snd_conv)
    show ?thesis
    proof (cases r)
      case (Inl e)
      then show ?thesis using Pair o1 by (simp add: bnd_def)
    next
      case (Inr v)
      have "obs (snd (g v s1)) = obs s1"
        using assms(2) by (simp add: keeps_def)
      then show ?thesis using Pair Inr o1 by (simp add: bnd_def)
    qed
  qed
  then show ?thesis by (simp add: keeps_def)
qed

lemma keeps_thn [keeps_intros]: "keeps obs f \<Longrightarrow> keeps obs g \<Longrightarrow> keeps obs (thn f g)"
  by (simp add: thn_def keeps_bnd)

lemma keeps_catch:
  assumes "keeps obs f" and "\<And>e g. h e = Some g \<Longrightarrow> keeps obs g"
  shows "keeps obs (catch f h)"
proof -
  have "obs (snd (catch f h s)) = obs s" for s
  proof (cases "f s")
    case (Pair r s1)
    have o1: "obs s1 = obs s"
      using assms(1) Pair by (metis keeps_def snd_conv)
    show ?thesis
    proof (cases r)
      case (Inr v)
      then show ?thesis using Pair o1 by (simp add: catch_def)
    next
      case (Inl e)
      show ?thesis
      proof (cases "h e")
        case None
        then show ?thesis using Pair Inl o1 by (simp add: catch_def)
      next
        case (Some g)
        have "obs (snd (g s1)) = obs s1"
          using assms(2) [OF Some] by (simp add: keeps_def)
        then show ?thesis using Pair Inl Some o1 by (simp add: catch_def)
      qed
    qed
  qed
  then show ?thesis by (simp add: keeps_def)
qed

lemma keeps_cached_property:
  assumes "\<And>v s. obs (put v s) = obs s" and "keeps obs compute"
  shows "keeps obs (cached_property get put compute)"
proof -
  have "obs (snd (cached_property get put compute s)) = obs s" for s
  proof (cases "get s")
    case (Some v)
    then show ?thesis by (simp add: cached_property_def)
  next
    case None
    obtain r s1 where c: "compute s = (r, s1)"
      by (cases "compute s")
    have o1: "obs s1 = obs s"
      using assms(2) c by (metis keeps_def snd_conv)
    show ?thesis
      using None c o1 assms(1) by (cases r) (simp_all add: cached_property_def)
  qed
  then show ?thesis by (simp add: keeps_def)
qed

lemma keeps_if [keeps_intros]:
  "(c \<Longrightarrow> keeps obs f) \<Longrightarrow> (\<not> c \<Longrightarrow> keeps obs g) \<Longrightarrow> keeps obs (if c then f else g)"
  by simp

lemma keeps_let [keeps_intros]: "keeps obs (f v) \<Longrightarrow> keeps obs (let x = v in f x)"
  by simp

lemma keeps_wait_loop:
  assumes "keeps obs func" and "keeps obs (emit (Sleep delay))"
  shows "keeps obs (wait_loop n delay func)"
  by (induction n) (auto intro!: keeps_intros assms)

lemma keeps_filter_emit:
  "\<not> P e \<Longrightarrow> keeps (\<lambda>s. filter P (trace s)) (emit e)"
  by (simp add: emit_def keeps_modify)

lemma keeps_filter_log [keeps_intros]:
  "\<not> P (LogMsg level msg) \<Longrightarrow> keeps (\<lambda>s. filter P (trace s)) (log level msg)"
  by (simp add: log_def keeps_filter_emit)

lemma keeps_filter_run_command:
  "\<not> P (RunCommand (client_hostname client) cmd) \<Longrightarrow>
     keeps (\<lambda>s. filter P (trace s)) (run_command env client cmd)"
  unfolding run_command_def
  by (intro keeps_intros keeps_filter_emit)

lemma keeps_filter_run_rails:
  "\<not> P (RunRails (client_hostname client) cmd) \<Longrightarrow>
     keeps (\<lambda>s. filter P (trace s)) (run_rails_command env client cmd)"
  unfolding run_rails_command_def
  by (intro keeps_intros keeps_filter_emit)

lemma keeps_getitem [keeps_intros]: "keeps obs (getitem d k)"
  by (auto simp: getitem_def intro: keeps_intros split: option.splits)

lemma keeps_filter_ssh_client:
  assumes "\<And>h. \<not> P (NetCheck h)" and "\<And>l m. \<not> P (LogMsg l m)"
  shows "keeps (\<lambda>s. filter P (trace s)) (ssh_client env)"
  unfolding ssh_client_def is_ssh_running_def ssh_client_with_privatekey_def
  by (intro keeps_cached_property keeps_intros keeps_filter_emit keeps_modify assms) simp_all

lemma range3: "[0..<3] = [0, 1, 2]"
  by (simp add: upt_rec)

lemma web_ui_tries_step:
  "web_ui_tries env (x # rest) c =
     bnd (probe_then_sleep env) (\<lambda>running. web_ui_tries env rest (if running then c + 1 else c))"
  by (simp add: probe_then_sleep_def bnd_assoc thn_assoc)

lemma is_web_ui_running_three:
  assumes "probe_then_sleep env s = (Inr b1, s1)"
    and "probe_then_sleep env s1 = (Inr b2, s2)"
    and "probe_then_sleep env s2 = (Inr b3, s3)"
  shows "is_web_ui_running env unsure s =
           (Inr (if b1 \<and> b2 \<and> b3 then PyBool True
                 else if \<not> b1 \<and> \<not> b2 \<and> \<not> b3 then PyBool False else unsure), s3)"
  using assms
  by (simp add: is_web_ui_running_def range3 web_ui_tries_step bnd_Inr ret_def
           del: web_ui_tries.simps(2))

lemma is_web_ui_running_raise1:
  assumes "probe_then_sleep env s = (Inl e, s1)"
  shows "is_web_ui_running env unsure s = (Inl e, s1)"
  using assms
  by (simp add: is_web_ui_running_def range3 web_ui_tries_step bnd_Inl
           del: web_ui_tries.simps(2))

lemma probe_then_sleep_trace:
  assumes "probe_then_sleep env s = (Inr b, s1)"
  shows "url s1 = url s \<and>
         filter probe_or_sleep (trace s1) =
           filter probe_or_sleep (trace s) @ [HttpGet (url s), Sleep 3]"
  using assms
  by (auto simp: probe_then_sleep_def check_appliance_ui_wait_fn_def monad_defs
           split: http_outcome.splits if_splits)

lemma str_int_503: "str_int 503 = ''503''"
  by code_simp

lemma is_db_ready_unfold:
  "is_db_ready env s =
     (case db_online env s of
        (Inl e, s1) \<Rightarrow> (Inl e, s1)
      | (Inr online, s1) \<Rightarrow>
          if \<not> online then (Inr False, s1)
          else (case db_has_database env s1 of
                  (Inl e, s2) \<Rightarrow> (Inl e, s2)
                | (Inr has_database, s2) \<Rightarrow>
                    if \<not> has_database then (Inr False, s2) else db_has_tables env s2))"
  by (simp add: is_db_ready_def bnd_def ret_def split: prod.splits sum.splits)

lemma keeps_runs_ssh_client: "keeps (\<lambda>s. filter (runs c) (trace s)) (ssh_client env)"
  by (rule keeps_filter_ssh_client) simp_all

lemma keeps_yaml_get [keeps_intros]: "keeps obs (yaml_get d k dflt)"
  by (auto simp: yaml_get_def intro: keeps_intros split: yaml.splits option.splits)

lemma keeps_runs_get_yaml_config:
  assumes "c \<noteq> ''cat /tmp/yam_dump.yaml''"
  shows "keeps (\<lambda>s. filter (runs c) (trace s)) (get_yaml_config env)"
  unfolding get_yaml_config_def
  using assms
  by (auto intro!: keeps_intros keeps_runs_ssh_client keeps_filter_run_rails
        keeps_filter_run_command split: sum.splits)

lemma keeps_runs_get_host_address:
  assumes "c \<noteq> ''cat /tmp/yam_dump.yaml''"
  shows "keeps (\<lambda>s. filter (runs c) (trace s)) (get_host_address env)"
  unfolding get_host_address_def
  by (intro keeps_cached_property keeps_catch keeps_intros keeps_runs_get_yaml_config assms)
     (auto intro!: keeps_intros)

lemma keeps_runs_wait_for_host_address:
  assumes "c \<noteq> ''cat /tmp/yam_dump.yaml''"
  shows "keeps (\<lambda>s. filter (runs c) (trace s)) (wait_for_host_address env)"
  unfolding wait_for_host_address_def wait_for_def
  by (intro keeps_catch keeps_wait_loop keeps_intros keeps_runs_get_host_address assms
        keeps_filter_emit)
     (auto intro!: keeps_intros)

lemma keeps_runs_db_address:
  assumes "c \<noteq> ''cat /tmp/yam_dump.yaml''" and "c \<noteq> ''ip address show''"
  shows "keeps (\<lambda>s. filter (runs c) (trace s)) (db_address env)"
  unfolding db_address_def
  using assms
  by (auto intro!: keeps_cached_property keeps_catch keeps_intros
        keeps_runs_wait_for_host_address keeps_runs_ssh_client keeps_filter_run_command
        simp: Let_def split: yaml.splits exn.splits)

lemma keeps_runs_db_ssh_client:
  assumes "c \<noteq> ''cat /tmp/yam_dump.yaml''" and "c \<noteq> ''ip address show''"
  shows "keeps (\<lambda>s. filter (runs c) (trace s)) (db_ssh_client env)"
  unfolding db_ssh_client_def is_db_internal_def
  using assms
  by (auto intro!: keeps_intros keeps_runs_db_address keeps_runs_ssh_client keeps_modify
        split: option.splits)

lemma keeps_runs_db_online:
  assumes "c \<noteq> ''cat /tmp/yam_dump.yaml''" and "c \<noteq> ''ip address show''"
    and "c \<noteq> db_online_command"
  shows "keeps (\<lambda>s. filter (runs c) (trace s)) (db_online env)"
  unfolding db_online_def
  using assms
  by (auto intro!: keeps_intros keeps_runs_db_ssh_client keeps_filter_run_command)

lemma keeps_runs_db_has_database:
  assumes "c \<noteq> ''cat /tmp/yam_dump.yaml''" and "c \<noteq> ''ip address show''"
    and "c \<noteq> db_has_database_command"
  shows "keeps (\<lambda>s. filter (runs c) (trace s)) (db_has_database env)"
  unfolding db_has_database_def
  using assms
  by (auto intro!: keeps_intros keeps_runs_db_ssh_client keeps_filter_run_command)

lemma db_commands_distinct:
  "db_has_database_command \<noteq> ''cat /tmp/yam_dump.yaml''"
  "db_has_database_command \<noteq> ''ip address show''"
  "db_has_database_command \<noteq> db_online_command"
  "db_has_tables_command \<noteq> ''cat /tmp/yam_dump.yaml''"
  "db_has_tables_command \<noteq> ''ip address show''"
  "db_has_tables_command \<noteq> db_online_command"
  "db_has_tables_command \<noteq> db_has_database_command"
  by (simp_all add: db_has_database_command_def db_has_tables_command_def db_online_command_def)

lemma keepsD: "keeps obs f \<Longrightarrow> obs (snd (f s)) = obs s"
  by (simp add: keeps_def)

lemma restart_distinct:
  "restart_chronyd \<noteq> ''yum list installed chrony''"
  "restart_chronyd \<noteq> ''systemctl is-enabled chronyd''"
  "restart_chronyd \<noteq> ''systemctl enable chronyd''"
  "restart_chronyd \<noteq> ''systemctl daemon-reload''"
  "restart_chronyd \<noteq> cat_chrony_conf"
  "restart_chronyd \<noteq> status_chronyd"
  "restart_chronyd \<noteq> chronyc_tracking"
  "restart_chronyd \<noteq> ''echo '' @ rest"
  by (simp_all add: restart_chronyd_def cat_chrony_conf_def status_chronyd_def
        chronyc_tracking_def)

lemma bnd_eq_Inr:
  assumes "bnd f g s = (Inr v, s')"
  obtains u s1 where "f s = (Inr u, s1)" and "g u s1 = (Inr v, s')"
  using assms by (auto simp: bnd_def split: prod.splits sum.splits)

lemma keeps_bnd_post:
  assumes "keeps obs f"
    and "\<And>s v s'. f s = (Inr v, s') \<Longrightarrow> Q v"
    and "\<And>v. Q v \<Longrightarrow> keeps obs (g v)"
  shows "keeps obs (bnd f g)"
proof -
  have "obs (snd (bnd f g s)) = obs s" for s
  proof (cases "f s")
    case (Pair r s1)
    have o1: "obs s1 = obs s"
      using assms(1) Pair by (metis keeps_def snd_conv)
    show ?thesis
    proof (cases r)
      case (Inl e)
      then show ?thesis using Pair o1 by (simp add: bnd_def)
    next
      case (Inr v)
      have "Q v" using assms(2) Pair Inr by simp
      then have "obs (snd (g v s1)) = obs s1"
        using assms(3) by (simp add: keeps_def)
      then show ?thesis using Pair Inr o1 by (simp add: bnd_def)
    qed
  qed
  then show ?thesis by (simp add: keeps_def)
qed

lemma keeps_restart_installed: "keeps restarts (chrony_installed env client)"
  unfolding chrony_installed_def
  by (intro keeps_intros keeps_filter_run_command) (simp add: restart_distinct [symmetric])

lemma keeps_restart_enable: "keeps restarts (chrony_enable env client)"
  unfolding chrony_enable_def
  by (intro keeps_intros keeps_filter_run_command) (simp_all add: restart_distinct [symmetric])

lemma keeps_restart_deploy: "keeps restarts (chrony_deploy_config env client)"
  unfolding chrony_deploy_config_def Let_def
  by (intro keeps_intros keeps_filter_run_command)
     (simp_all add: restart_chronyd_def cat_chrony_conf_def)

lemma keeps_restart_verify: "keeps restarts (chrony_verify env client)"
  unfolding chrony_verify_def
  by (intro keeps_intros keeps_filter_run_command) (simp_all add: restart_distinct [symmetric])

lemma run_command_apply:
  "run_command env client cmd s =
     (Inr (run_answer env (trace s) (client_hostname client) cmd),
      s\<lparr>trace := trace s @ [RunCommand (client_hostname client) cmd]\<rparr>)"
  by (simp add: run_command_def bnd_def thn_def ret_def gets_def emit_def modify_def)

lemma log_apply:
  "log level msg s = (Inr (), s\<lparr>trace := trace s @ [LogMsg level msg]\<rparr>)"
  by (simp add: log_def emit_def modify_def)

lemmas apply_rules = bnd_def thn_def ret_def raise_def run_command_apply log_apply

lemma deploy_unchanged:
  assumes "\<forall>tr h. output (run_answer env tr h cat_chrony_conf) = chrony_config_file env"
    and "chrony_deploy_config env client s = (Inr v, s')"
  shows "v = False"
  using assms by (simp add: chrony_deploy_config_def Let_def apply_rules)

lemma deploy_changed:
  assumes "\<forall>tr h. chrony_config_file env \<noteq> output (run_answer env tr h cat_chrony_conf)"
    and "chrony_deploy_config env client s = (Inr v, s')"
  shows "v = True"
  using assms by (simp add: chrony_deploy_config_def Let_def apply_rules)

lemma restart_block:
  "fst (chrony_restart env client u s) = Inr () \<and>
   restarts (snd (chrony_restart env client u s)) =
     restarts s @
     (if u \<or> rc (run_answer env (trace s) (client_hostname client) status_chronyd) \<noteq> 0
      then [RunCommand (client_hostname client) restart_chronyd] else [])"
  by (simp add: chrony_restart_def apply_rules restart_distinct [symmetric])

lemma verify_success:
  assumes "chrony_verify env client s = (Inr v, s')"
  shows "trace s' = trace s @ [RunCommand (client_hostname client) chronyc_tracking,
                               LogMsg ''info'' ''chronyc is running correctly'']"
  using assms by (auto simp: chrony_verify_def apply_rules split: if_splits)

lemma verify_fails:
  assumes "\<forall>tr h. rc (run_answer env tr h chronyc_tracking) \<noteq> 0"
  shows "fst (chrony_verify env client s) =
           Inl (ApplianceException (''chrony doesn't work. Error message: '' @
                  output (run_answer env (trace s) (client_hostname client) chronyc_tracking)))"
  using assms by (simp add: chrony_verify_def apply_rules)

lemma keeps_restart_log_callback: "keeps restarts (log_callback prefix msg)"
  unfolding log_callback_def by (intro keeps_filter_log) simp

lemma keeps_restart_ssh_client: "keeps restarts (ssh_client env)"
  by (rule keeps_runs_ssh_client)

lemma keeps_restart_block_idle:
  assumes "\<forall>tr h. rc (run_answer env tr h status_chronyd) = 0"
  shows "keeps restarts (chrony_restart env client False)"
  using assms restart_block [of env client False] by (simp add: keeps_def)

lemma fix_ntp_clock_no_restart:
  assumes "\<forall>tr h. output (run_answer env tr h cat_chrony_conf) = chrony_config_file env"
    and "\<forall>tr h. rc (run_answer env tr h status_chronyd) = 0"
  shows "keeps restarts (fix_ntp_clock env)"
  unfolding fix_ntp_clock_def
proof (intro keeps_thn keeps_bnd keeps_restart_log_callback keeps_restart_ssh_client)
  fix client
  show "keeps restarts (fix_ntp_clock_on env client)"
    unfolding fix_ntp_clock_on_def
  proof (intro keeps_thn keeps_restart_installed keeps_restart_enable)
    show "keeps restarts
            (bnd (chrony_deploy_config env client) (\<lambda>conf_file_updated.
               thn (chrony_restart env client conf_file_updated) (chrony_verify env client)))"
    proof (rule keeps_bnd_post [where Q = "\<lambda>v. v = False"])
      show "keeps restarts (chrony_deploy_config env client)"
        by (rule keeps_restart_deploy)
    next
      fix s v s'
      assume "chrony_deploy_config env client s = (Inr v, s')"
      then show "v = False"
        using deploy_unchanged [OF assms(1)] by blast
    next
      fix v :: bool
      assume "v = False"
      then show "keeps restarts
                   (thn (chrony_restart env client v) (chrony_verify env client))"
        using keeps_restart_block_idle [OF assms(2)] keeps_restart_verify
        by (simp add: keeps_thn)
    qed
  qed
qed

lemma log_callback_apply:
  "log_callback prefix msg s = (Inr (), s\<lparr>trace := trace s @ [LogMsg ''info'' (prefix @ msg)]\<rparr>)"
  by (simp add: log_callback_def log_apply)

lemma thn_Inr: "f s = (Inr (), s1) \<Longrightarrow> thn f g s = g s1"
  by (simp add: thn_def bnd_def)

lemma thn_Inl: "f s = (Inl e, s1) \<Longrightarrow> thn f g s = (Inl e, s1)"
  by (simp add: thn_def bnd_def)

lemma keeps_step: "keeps obs f \<Longrightarrow> f s = (r, s1) \<Longrightarrow> obs s1 = obs s"
  by (metis keeps_def snd_conv)

lemma fix_ntp_clock_cases:
  "(restarts (snd (fix_ntp_clock env s)) = restarts s \<and>
    (\<exists>e. fst (fix_ntp_clock env s) = Inl e)) \<or>
   (\<exists>client u s3 s4 s5.
      restarts s4 = restarts s \<and>
      chrony_deploy_config env client s3 = (Inr u, s4) \<and>
      chrony_restart env client u s4 = (Inr (), s5) \<and>
      fix_ntp_clock env s = chrony_verify env client s5)"
proof -
  obtain s0 where l: "log_callback ''Fix NTP Clock: '' ''Fixing appliance clock'' s = (Inr (), s0)"
    by (simp add: log_callback_apply)
  have r0: "restarts s0 = restarts s"
    by (rule keeps_step [OF keeps_restart_log_callback l])
  obtain c s1 where ssh: "ssh_client env s0 = (c, s1)"
    by (cases "ssh_client env s0")
  have r1: "restarts s1 = restarts s"
    using keeps_step [OF keeps_restart_ssh_client ssh] r0 by simp
  show ?thesis
  proof (cases c)
    case (Inl e)
    then have "fix_ntp_clock env s = (Inl e, s1)"
      using l ssh by (simp add: fix_ntp_clock_def thn_Inr bnd_Inl)
    then show ?thesis using r1 by simp
  next
    case (Inr client)
    then have f: "fix_ntp_clock env s = fix_ntp_clock_on env client s1"
      using l ssh by (simp add: fix_ntp_clock_def thn_Inr bnd_Inr)
    obtain i s2 where ins: "chrony_installed env client s1 = (i, s2)"
      by (cases "chrony_installed env client s1")
    have r2: "restarts s2 = restarts s"
      using keeps_step [OF keeps_restart_installed ins] r1 by simp
    show ?thesis
    proof (cases i)
      case (Inl e)
      then have "fix_ntp_clock env s = (Inl e, s2)"
        using f ins by (simp add: fix_ntp_clock_on_def thn_Inl)
      then show ?thesis using r2 by simp
    next
      case Inr
      obtain en s3 where ena: "chrony_enable env client s2 = (en, s3)"
        by (cases "chrony_enable env client s2")
      have r3: "restarts s3 = restarts s"
        using keeps_step [OF keeps_restart_enable ena] r2 by simp
      show ?thesis
      proof (cases en)
        case (Inl e)
        then have "fix_ntp_clock env s = (Inl e, s3)"
          using f ins Inr ena by (simp add: fix_ntp_clock_on_def thn_Inr thn_Inl)
        then show ?thesis using r3 by simp
      next
        case Inr2: Inr
        obtain d s4 where dep: "chrony_deploy_config env client s3 = (d, s4)"
          by (cases "chrony_deploy_config env client s3")
        have r4: "restarts s4 = restarts s"
          using keeps_step [OF keeps_restart_deploy dep] r3 by simp
        show ?thesis
        proof (cases d)
          case (Inl e)
          then have "fix_ntp_clock env s = (Inl e, s4)"
            using f ins Inr ena Inr2 dep
            by (simp add: fix_ntp_clock_on_def thn_Inr bnd_Inl)
          then show ?thesis using r4 by simp
        next
          case (Inr u)
          obtain s5 where res: "chrony_restart env client u s4 = (Inr (), s5)"
            using restart_block [of env client u s4]
            by (cases "chrony_restart env client u s4") auto
          have "fix_ntp_clock env s = chrony_verify env client s5"
            using f ins \<open>i = Inr _\<close> ena Inr2 dep Inr res
            by (simp add: fix_ntp_clock_on_def thn_Inr bnd_Inr)
          then show ?thesis
            using r4 dep Inr res by blast
        qed
      qed
    qed
  qed
qed

lemmas chrony_defs = fix_ntp_clock_def fix_ntp_clock_on_def chrony_installed_def
  chrony_enable_def chrony_deploy_config_def chrony_restart_def chrony_verify_def
  log_callback_def ssh_client_def chrony_config_file_def
  cat_chrony_conf_def status_chronyd_def restart_chronyd_def chronyc_tracking_def

named_theorems preserves_intros

lemma preserves_keeps: "keeps obs f \<Longrightarrow> preserves (\<lambda>s. P (obs s)) f"
  by (simp add: preserves_def keeps_def)

lemma preserves_ret [preserves_intros]: "preserves I (ret v)"
  by (simp add: preserves_def ret_def)

lemma preserves_raise [preserves_intros]: "preserves I (raise e)"
  by (simp add: preserves_def raise_def)

lemma preserves_gets [preserves_intros]: "preserves I (gets f)"
  by (simp add: preserves_def gets_def)

lemma preserves_bnd [preserves_intros]:
  assumes "preserves I f" and "\<And>v. preserves I (g v)"
  shows "preserves I (bnd f g)"
proof -
  have "I (snd (bnd f g s))" if i: "I s" for s
  proof (cases "f s")
    case (Pair r s1)
    have i1: "I s1"
      using assms(1) i Pair by (metis preserves_def snd_conv)
    show ?thesis
    proof (cases r)
      case (Inl e)
      then show ?thesis using Pair i1 by (simp add: bnd_def)
    next
      case (Inr v)
      have "I (snd (g v s1))"
        using assms(2) i1 by (simp add: preserves_def)
      then show ?thesis using Pair Inr by (simp add: bnd_def)
    qed
  qed
  then show ?thesis by (simp add: preserves_def)
qed

lemma preserves_thn [preserves_intros]:
  "preserves I f \<Longrightarrow> preserves I g \<Longrightarrow> preserves I (thn f g)"
  by (simp add: thn_def preserves_bnd)

lemma preserves_if [preserves_intros]:
  "(c \<Longrightarrow> preserves I f) \<Longrightarrow> (\<not> c \<Longrightarrow> preserves I g) \<Longrightarrow> preserves I (if c then f else g)"
  by simp

lemma preserves_let [preserves_intros]: "preserves I (f v) \<Longrightarrow> preserves I (let x = v in f x)"
  by simp

lemma preserves_case_prod [preserves_intros]:
  "(\<And>a b. preserves I (f a b)) \<Longrightarrow> preserves I (case p of (a, b) \<Rightarrow> f a b)"
  by (cases p) simp

lemma preserves_modify: "(\<And>s. I s \<Longrightarrow> I (g s)) \<Longrightarrow> preserves I (modify g)"
  by (simp add: preserves_def modify_def)

lemma keeps_view_emit [keeps_intros]: "keeps cache_view (emit e)"
  by (simp add: emit_def keeps_modify cache_view_def)

lemma keeps_view_log [keeps_intros]: "keeps cache_view (log level msg)"
  by (simp add: log_def keeps_view_emit)

lemma keeps_view_run_command [keeps_intros]: "keeps cache_view (run_command env client cmd)"
  unfolding run_command_def by (intro keeps_intros)

lemma keeps_view_put_file [keeps_intros]: "keeps cache_view (put_file client l r)"
  unfolding put_file_def by (intro keeps_intros)

lemma keeps_view_get_file [keeps_intros]: "keeps cache_view (get_file client r l)"
  unfolding get_file_def by (intro keeps_intros)

lemma keeps_view_ssh_client [keeps_intros]: "keeps cache_view (ssh_client env)"
  unfolding ssh_client_def is_ssh_running_def ssh_client_with_privatekey_def
  by (intro keeps_cached_property keeps_intros keeps_modify) (simp_all add: cache_view_def)

lemma keeps_view_has_cli [keeps_intros]: "keeps cache_view (has_cli env)"
  unfolding has_cli_def by (intro keeps_intros)

lemma keeps_view_log_callback [keeps_intros]: "keeps cache_view (log_callback prefix msg)"
  unfolding log_callback_def by (intro keeps_intros)

lemma db_address_cached:
  "db_address_cache s = Some a \<Longrightarrow> db_address env s = (Inr a, s)"
  by (simp add: db_address_def cached_property_def)

lemma preserves_db_address:
  "preserves (\<lambda>s. cache_view s = (None, Some a, n, b)) (db_address env)"
  by (simp add: preserves_def cache_view_def db_address_cached)

lemma preserves_view:
  "keeps cache_view f \<Longrightarrow> preserves (\<lambda>s. cache_view s = x) f"
  by (rule preserves_keeps)

lemma preservesD: "preserves I f \<Longrightarrow> I s \<Longrightarrow> I (snd (f s))"
  by (simp add: preserves_def)

lemma gets_address_step: "bnd (gets address) g s = g (address s) s"
  by (simp add: bnd_def gets_def)

lemma modify_step: "thn (modify f) g s = g (f s)"
  by (simp add: thn_def bnd_def modify_def)

lemma log_callback_step:
  "thn (log_callback prefix msg) g s =
     g (s\<lparr>trace := trace s @ [LogMsg ''info'' (prefix @ msg)]\<rparr>)"
  by (simp add: thn_def bnd_def log_callback_def log_def emit_def modify_def)

lemmas prefix_steps = gets_address_step modify_step log_callback_step clear_property_cache_db_def

lemmas preserves_view_atoms =
  preserves_view [OF keeps_view_ssh_client] preserves_view [OF keeps_view_has_cli]
  preserves_view [OF keeps_view_run_command] preserves_view [OF keeps_view_put_file]
  preserves_view [OF keeps_view_get_file] preserves_view [OF keeps_view_log]
  preserves_view [OF keeps_view_log_callback]

lemma enable_internal_db_view:
  "cache_view (snd (enable_internal_db env region key_address db_password ssh_password s)) =
     (None, Some (address s), next_oid s, address s)"
  unfolding enable_internal_db_def clear_property_cache_db_def
  apply (subst gets_address_step, subst log_callback_step, subst modify_step, subst modify_step)
  apply (rule preservesD [where I = "\<lambda>t. cache_view t = (None, Some (address s), next_oid s, address s)"])
   apply (intro preserves_intros preserves_view_atoms)
  apply (simp add: cache_view_def)
  done

lemma enable_external_db_view:
  "cache_view (snd (enable_external_db env new_db_address region db_name db_username db_password s)) =
     (None, Some new_db_address, next_oid s, address s)"
  unfolding enable_external_db_def clear_property_cache_db_def
  apply (subst gets_address_step, subst log_callback_step, subst modify_step, subst modify_step)
  apply (rule preservesD [where I = "\<lambda>t. cache_view t = (None, Some new_db_address, next_oid s, address s)"])
   apply (intro preserves_intros preserves_view_atoms preserves_db_address)
  apply (simp add: cache_view_def)
  done

named_theorems returns_intros

lemma returns_only_ret: "Q v \<Longrightarrow> returns_only Q (ret v)"
  by (simp add: returns_only_def ret_def)

lemma returns_only_raise [returns_intros]: "returns_only Q (raise e)"
  by (simp add: returns_only_def raise_def)

lemma returns_only_bnd [returns_intros]:
  "(\<And>u. returns_only Q (g u)) \<Longrightarrow> returns_only Q (bnd f g)"
  by (auto simp: returns_only_def bnd_def split: prod.splits sum.splits)

lemma returns_only_thn [returns_intros]: "returns_only Q g \<Longrightarrow> returns_only Q (thn f g)"
  by (simp add: thn_def returns_only_bnd)

lemma returns_only_if [returns_intros]:
  "(c \<Longrightarrow> returns_only Q f) \<Longrightarrow> (\<not> c \<Longrightarrow> returns_only Q g) \<Longrightarrow>
     returns_only Q (if c then f else g)"
  by simp

lemma returns_only_let [returns_intros]:
  "returns_only Q (f v) \<Longrightarrow> returns_only Q (let x = v in f x)"
  by simp

lemma returns_only_case_prod [returns_intros]:
  "(\<And>a b. returns_only Q (f a b)) \<Longrightarrow> returns_only Q (case p of (a, b) \<Rightarrow> f a b)"
  by (cases p) simp

lemma enable_external_db_status:
  "returns_only (\<lambda>result. fst result = 0)
     (enable_external_db env new_db_address region db_name db_username db_password)"
  unfolding enable_external_db_def
  by (intro returns_intros returns_only_ret) simp

lemma db_fresh:
  assumes "db_cache s = None" and "db_address_cache s = Some a"
  shows "fst (db env s) = Inr \<lparr>db_hostname = a, db_oid = next_oid s\<rparr>"
  using assms
  by (simp add: db_def cached_property_def db_address_cached bnd_def thn_def gets_def
        modify_def ret_def)

lemma cache_viewD:
  "cache_view s' = (c, a, n, b) \<Longrightarrow>
     db_cache s' = c \<and> db_address_cache s' = a \<and> next_oid s' = n \<and> address s' = b"
  by (simp add: cache_view_def)

lemma ssh_client_cached:
  "ssh_client_cache s = Some client \<Longrightarrow> ssh_client env s = (Inr client, s)"
  by (simp add: ssh_client_def cached_property_def)

lemma enable_external_db_failure:
  assumes "ssh_client_cache s = Some client"
    and "\<forall>tr h c. enabling_command c \<longrightarrow>
           rc (run_answer env tr h c) \<noteq> 0 \<and> output (run_answer env tr h c) = out"
  shows "fst (enable_external_db env new_db_address region db_name db_username db_password s) =
           Inl (ApplianceException
                  (''Appliance '' @ address s @ '' failed to enable external DB running on '' @
                   new_db_address)) \<and>
         LogMsg ''error'' out \<in> set (trace (snd (enable_external_db env new_db_address region
                                    db_name db_username db_password s)))"
  using assms
  by (simp add: enable_external_db_def has_cli_def ssh_client_def db_address_def
        clear_property_cache_db_def log_callback_def monad_defs Let_def enabling_command_def)

lemma str_int_0: "str_int 0 = ''0''"
  by code_simp

lemmas enable_defs = enable_external_db_def enable_internal_db_def has_cli_def ssh_client_def
  db_address_def clear_property_cache_db_def log_callback_def or_default_def client_call_def

text \<open>The keys of the roles read and of the roles returned.\<close>

lemma keys_del_key: "fst ` set (del_key k d) = fst ` set d - {k}"
  by (force simp: del_key_def)

lemma keys_fold_del_key: "fst ` set (fold del_key ks d) = fst ` set d - set ks"
proof (induction ks arbitrary: d)
  case Nil
  then show ?case by simp
next
  case (Cons k ks)
  have "fst ` set (fold del_key ks (del_key k d)) = (fst ` set d - {k}) - set ks"
    by (simp add: Cons.IH keys_del_key)
  then show ?case by auto
qed

lemma is_storage_enabled_cached:
  "is_storage_enabled_cache s = Some v \<Longrightarrow> is_storage_enabled env s = (Inr v, s)"
  by (simp add: is_storage_enabled_def cached_property_def)

lemma is_storage_enabled_Inr:
  assumes "is_storage_enabled env s = (Inr v, s1)"
  shows "is_storage_enabled_cache s1 = Some v"
  using assms
  by (auto simp: is_storage_enabled_def cached_property_def split: option.splits prod.splits sum.splits)

lemma collect_dead_keys_cached:
  assumes "is_storage_enabled_cache s = Some flag"
  shows "collect_dead_keys env keys dk s =
           (Inr (dk @ (if flag then [] else filter storage_key keys)), s)"
  using assms
proof (induction keys arbitrary: dk)
  case Nil
  then show ?case by (simp add: ret_def)
next
  case (Cons key rest)
  show ?case
    using Cons.prems Cons.IH [OF Cons.prems]
    by (auto simp: is_storage_enabled_cached bnd_def storage_key_def)
qed

lemma collect_dead_keys_Inr:
  assumes "collect_dead_keys env keys dk s = (Inr dk', s')"
  shows "set dk' = set dk \<union>
           (if is_storage_enabled_cache s' = Some False then {k \<in> set keys. storage_key k} else {})"
proof (cases keys)
  case Nil
  then show ?thesis using assms by (auto simp: ret_def)
next
  case (Cons key rest)
  obtain v s1 where r: "is_storage_enabled env s = (Inr v, s1)"
    and c: "collect_dead_keys env rest
              (if \<not> v then dk @ (if startswith key ''storage'' then [key] else []) @
                 (if key = ''vmdb_storage_bridge'' then [key] else []) else dk) s1 = (Inr dk', s')"
    using assms Cons by (auto elim!: bnd_eq_Inr)
  have f: "is_storage_enabled_cache s1 = Some v"
    by (rule is_storage_enabled_Inr [OF r])
  have s: "s' = s1"
    and d: "dk' = (if \<not> v then dk @ (if startswith key ''storage'' then [key] else []) @
                 (if key = ''vmdb_storage_bridge'' then [key] else []) else dk) @
               (if v then [] else filter storage_key rest)"
    using c unfolding collect_dead_keys_cached [OF f] by simp_all
  show ?thesis
  proof (cases v)
    case True
    then show ?thesis using s d f by simp
  next
    case False
    then have "set dk' = set dk \<union> {k \<in> set (key # rest). storage_key k}"
      using d by (auto simp: storage_key_def)
    then show ?thesis using s f False Cons by simp
  qed
qed

lemma thn_eq_Inr:
  assumes "thn f g s = (Inr v, s')"
  obtains s1 where "f s = (Inr (), s1)" and "g s1 = (Inr v, s')"
  using assms by (auto simp: thn_def elim!: bnd_eq_Inr)

lemma db_query_Inr:
  assumes "db_query env d table name s = (Inr rows, s1)"
  shows "table (store_answer env (trace s) (db_hostname d)) = Some rows"
  using assms
  by (auto simp: db_query_def bnd_def thn_def gets_def emit_def modify_def ret_def raise_def
           split: option.splits)

lemma read_roles_Inr:
  assumes "read_roles env s = (Inr roles0, s5)"
  shows "\<exists>tr h sr_rows. server_roles_table (store_answer env tr h) = Some sr_rows \<and>
           map fst roles0 = remdups (map sr_name sr_rows)"
  using assms unfolding read_roles_def Let_def
  apply (elim bnd_eq_Inr thn_eq_Inr)
  apply (drule db_query_Inr)
  apply (clarsimp simp: ret_def comp_def split: prod.splits)
  apply blast
  done

text \<open>Reading the roles writes no configuration.\<close>

lemma not_writes [simp]:
  "\<not> writes (NetCheck h)" "\<not> writes (LogMsg l m)" "\<not> writes (RunCommand h c)"
  "\<not> writes (RunRails h c)" "\<not> writes (Sleep n)" "\<not> writes (DbQuery h c)"
  by simp_all

lemma keeps_written_ssh_client: "keeps written (ssh_client env)"
  by (rule keeps_filter_ssh_client) simp_all

lemma keeps_written_get_yaml_config: "keeps written (get_yaml_config env)"
  unfolding get_yaml_config_def
  by (auto intro!: keeps_intros keeps_written_ssh_client keeps_filter_run_rails
        keeps_filter_run_command split: sum.splits)

lemma keeps_written_get_host_address: "keeps written (get_host_address env)"
  unfolding get_host_address_def
  by (intro keeps_cached_property keeps_catch keeps_intros keeps_written_get_yaml_config)
     (auto intro!: keeps_intros)

lemma keeps_written_wait_for_host_address: "keeps written (wait_for_host_address env)"
  unfolding wait_for_host_address_def wait_for_def
  by (intro keeps_catch keeps_wait_loop keeps_intros keeps_written_get_host_address
        keeps_filter_emit)
     (auto intro!: keeps_intros)

lemma keeps_written_db_address: "keeps written (db_address env)"
  unfolding db_address_def
  by (auto intro!: keeps_cached_property keeps_catch keeps_intros
        keeps_written_wait_for_host_address keeps_written_ssh_client keeps_filter_run_command
        simp: Let_def split: yaml.splits exn.splits)

lemma keeps_written_db: "keeps written (db env)"
  unfolding db_def
  by (intro keeps_cached_property keeps_intros keeps_written_db_address keeps_modify) simp_all

lemma keeps_written_guid: "keeps written (guid env)"
  unfolding guid_def
  by (intro keeps_cached_property keeps_intros keeps_written_ssh_client
        keeps_filter_run_command) simp_all

lemma keeps_written_db_getitem: "keeps written (db_getitem env d table name)"
  unfolding db_getitem_def
  by (auto intro!: keeps_intros split: option.splits)

lemma keeps_written_db_query: "keeps written (db_query env d table name)"
  unfolding db_query_def
  by (auto intro!: keeps_intros keeps_filter_emit split: option.splits)

lemma keeps_written_db_query_join: "keeps written (db_query_join env d table1 table2 name)"
  unfolding db_query_join_def
  by (auto intro!: keeps_intros keeps_filter_emit split: option.splits)

lemma keeps_written_evm_id: "keeps written (evm_id env)"
  unfolding evm_id_def
  by (auto intro!: keeps_cached_property keeps_intros keeps_written_db keeps_written_guid
        keeps_written_db_getitem keeps_written_db_query split: list.splits)

lemma keeps_yaml_contains [keeps_intros]: "keeps obs (yaml_contains k x)"
  by (auto simp: yaml_contains_def intro: keeps_intros split: yaml.splits)

lemma keeps_written_is_storage_enabled: "keeps written (is_storage_enabled env)"
  unfolding is_storage_enabled_def
  by (intro keeps_cached_property keeps_intros keeps_written_get_yaml_config) simp_all

lemma keeps_written_collect_dead_keys: "keeps written (collect_dead_keys env keys dk)"
  by (induction keys arbitrary: dk)
     (auto intro!: keeps_intros keeps_written_is_storage_enabled)

lemma keeps_case_prod [keeps_intros]:
  "(\<And>a b. keeps obs (f a b)) \<Longrightarrow> keeps obs (case p of (a, b) \<Rightarrow> f a b)"
  by (cases p) simp

lemma keeps_written_read_roles: "keeps written (read_roles env)"
  unfolding read_roles_def
  by (intro keeps_intros keeps_written_db keeps_written_db_getitem keeps_written_db_query
        keeps_written_db_query_join keeps_written_evm_id)

lemma keeps_written_server_roles: "keeps written (server_roles env)"
  unfolding server_roles_def suppress_dead_keys_def
  by (intro keeps_intros keeps_written_read_roles keeps_written_collect_dead_keys)

lemmas roles_defs = server_roles_def read_roles_def suppress_dead_keys_def db_def db_getitem_def
  db_query_def db_query_join_def evm_id_def guid_def is_storage_enabled_def get_yaml_config_def
  yaml_get_def yaml_contains_def del_key_def ssh_client_def db_address_def

text \<open>The configuration details as a function of the store.\<close>

lemma db_Inr:
  assumes "db env s = (Inr d, s1)"
  shows "db_cache s1 = Some d"
  using assms
  by (auto simp: db_def cached_property_def split: option.splits prod.splits sum.splits)

lemma db_cached: "db_cache s = Some d \<Longrightarrow> db env s = (Inr d, s)"
  by (simp add: db_def cached_property_def)

lemma guid_cached: "guid_cache s = Some g \<Longrightarrow> guid env s = (Inr g, s)"
  by (simp add: guid_def cached_property_def)

lemmas store_defs = db_getitem_def db_query_def db_query_join_def

lemmas eval_defs = catch_def bnd_def thn_def gets_def emit_def modify_def ret_def raise_def

lemma body_after_db:
  assumes "db env s = (Inr d, s1)"
  shows "configuration_details_body env s = configuration_details_body env s1"
proof -
  have a: "\<And>g h. catch (bnd (db env) g) h s = catch (g d) h s1"
    using assms by (simp add: catch_def bnd_def)
  have b: "\<And>g h. catch (bnd (db env) g) h s1 = catch (g d) h s1"
    using db_cached [OF db_Inr [OF assms], of env] by (simp add: catch_def bnd_def)
  show ?thesis
    unfolding configuration_details_body_def by (simp only: a b)
qed

lemma body_single:
  assumes "db_cache s = Some d"
    and "\<forall>tr h. miq_regions (store_answer env tr h) = Some (rg # other_regions)"
    and "\<forall>tr h. miq_servers (store_answer env tr h) = Some [srv]"
  shows "fst (configuration_details_body env s) =
           Inr (Some (Some (r_region rg), Some (s_name srv), Some (s_id srv),
                      Some (s_zone_id srv)))"
  using assms
  by (simp add: configuration_details_body_def db_cached store_defs eval_defs Let_def)

lemma body_empty:
  assumes "db_cache s = Some d"
    and "\<forall>tr h. miq_regions (store_answer env tr h) = Some (rg # other_regions)"
    and "\<forall>tr h. miq_servers (store_answer env tr h) = Some []"
  shows "fst (configuration_details_body env s) = Inr (Some (None, None, None, None))"
  using assms
  by (simp add: configuration_details_body_def db_cached store_defs eval_defs Let_def)

lemma server_filter_cached:
  assumes "db_cache s = Some d" and "guid_cache s = Some g"
  shows "server_filter env (region * SEQ_FACT) (region * SEQ_FACT + SEQ_FACT) server s =
           (Inr (server_matches d g region server), s)"
  using assms
  by (auto simp: server_filter_def db_cached guid_cached bnd_def ret_def server_matches_def)

lemma filter_m_cached:
  assumes "db_cache s = Some d" and "guid_cache s = Some g"
  shows "filter_m (server_filter env (region * SEQ_FACT) (region * SEQ_FACT + SEQ_FACT)) servers s
           = (Inr (filter (server_matches d g region) servers), s)"
  by (induction servers)
     (simp_all add: server_filter_cached [OF assms] bnd_def ret_def)

lemma configuration_details_fresh:
  assumes "configuration_details_cache s = None"
  shows "fst (configuration_details env s) = fst (configuration_details_body env s)"
  using assms
  by (simp add: configuration_details_def cached_property_def split: prod.splits sum.splits)

lemma server_id_from_details:
  assumes "fst (configuration_details env s) = Inr details"
  shows "fst (server_id env s) =
           Inr (case details of None \<Rightarrow> None | Some (region, name, sid, zone) \<Rightarrow> sid)"
  using assms
  by (cases "configuration_details env s")
     (auto simp: server_id_def catch_def bnd_def raise_def ret_def type_error_is_None_def
           split: option.splits)

lemma server_region_from_details:
  assumes "fst (configuration_details env s) = Inr details"
  shows "fst (server_region env s) =
           Inr (case details of None \<Rightarrow> None | Some (region, name, sid, zone) \<Rightarrow> region)"
  using assms
  by (cases "configuration_details env s")
     (auto simp: server_region_def catch_def bnd_def raise_def ret_def type_error_is_None_def
           split: option.splits)

lemma server_name_from_details:
  assumes "fst (configuration_details env s) = Inr details"
  shows "fst (server_name env s) =
           Inr (case details of None \<Rightarrow> None | Some (region, name, sid, zone) \<Rightarrow> name)"
  using assms
  by (cases "configuration_details env s")
     (auto simp: server_name_def catch_def bnd_def raise_def ret_def type_error_is_None_def
           split: option.splits)

lemma body_filtered:
  assumes "db_cache s = Some d" and "guid_cache s = Some g"
    and "\<forall>tr h. miq_regions (store_answer env tr h) = Some (rg # other_regions)"
    and "\<forall>tr h. miq_servers (store_answer env tr h) = Some servers"
    and "length servers \<noteq> 1"
  shows "fst (configuration_details_body env s) =
           Inr (Some (case filter (server_matches d g (r_region rg)) servers of
                        [] \<Rightarrow> (None, None, None, None)
                      | row # others \<Rightarrow> (Some (r_region rg), Some (s_name row), Some (s_id row),
                                          Some (s_zone_id row))))"
  using assms
  by (simp add: configuration_details_body_def db_cached filter_m_cached store_defs eval_defs
        Let_def split: list.splits)

lemma details_single:
  assumes "configuration_details_cache s = None"
    and "db env s = (Inr d, s1)"
    and "\<forall>tr h. miq_regions (store_answer env tr h) = Some (rg # other_regions)"
    and "\<forall>tr h. miq_servers (store_answer env tr h) = Some [srv]"
  shows "fst (configuration_details env s) =
           Inr (Some (Some (r_region rg), Some (s_name srv), Some (s_id srv),
                      Some (s_zone_id srv)))"
  by (simp only: configuration_details_fresh [OF assms(1)] body_after_db [OF assms(2)]
        body_single [OF db_Inr [OF assms(2)] assms(3,4)])

lemma details_empty:
  assumes "configuration_details_cache s = None"
    and "db env s = (Inr d, s1)"
    and "\<forall>tr h. miq_regions (store_answer env tr h) = Some (rg # other_regions)"
    and "\<forall>tr h. miq_servers (store_answer env tr h) = Some []"
  shows "fst (configuration_details env s) = Inr (Some (None, None, None, None))"
  by (simp only: configuration_details_fresh [OF assms(1)] body_after_db [OF assms(2)]
        body_empty [OF db_Inr [OF assms(2)] assms(3,4)])

lemma details_filtered:
  assumes "configuration_details_cache s = None"
    and "db env s = (Inr d, s1)"
    and "guid_cache s1 = Some g"
    and "\<forall>tr h. miq_regions (store_answer env tr h) = Some (rg # other_regions)"
    and "\<forall>tr h. miq_servers (store_answer env tr h) = Some servers"
    and "length servers \<noteq> 1"
  shows "fst (configuration_details env s) =
           Inr (Some (case filter (server_matches d g (r_region rg)) servers of
                        [] \<Rightarrow> (None, None, None, None)
                      | row # others \<Rightarrow> (Some (r_region rg), Some (s_name row), Some (s_id row),
                                          Some (s_zone_id row))))"
  by (simp only: configuration_details_fresh [OF assms(1)] body_after_db [OF assms(2)]
        body_filtered [OF db_Inr [OF assms(2)] assms(3-6)])

lemmas identity_defs = server_id_def server_region_def server_name_def configuration_details_def
  configuration_details_body_def cached_property_def catch_def type_error_is_None_def
  server_filter_def db_def db_getitem_def db_query_def guid_def ssh_client_def db_address_def
  run_command_def

section \<open>Verified properties: the claims\<close>

text \<open>
  C6. The appliance stack is strict LIFO. From any stack, \<open>push A; push B; pop\<close> returns
  \<open>B\<close> and leaves \<open>A\<close> on top, and the next \<open>pop\<close> returns \<open>A\<close> and leaves the stack as it
  was before the two pushes: empty if it was empty, and then a further \<open>pop\<close> raises.
  Leaving a scope (\<open>exit_scope\<close>, the \<^verbatim>\<open>__exit__\<close> method) while the top of the stack is
  another object than the appliance that entered the scope raises the consistency error
  \<^verbatim>\<open>AssertionError('appliance stack inconsistent')\<close>; leaving it with the expected appliance
  on top pops that appliance and raises nothing; popping an empty stack raises, directly
  or on leaving a scope.
\<close>

theorem appliance_stack_lifo:
  "(\<exists>s1 s2. pop (push B (push A s)) = (Inr B, s1) \<and> top_stack s1 = Some A \<and>
       pop s1 = (Inr A, s2) \<and> items s2 = items s \<and>
       (items s = [] \<longrightarrow> top_stack s2 = None \<and> fst (pop s2) = Inl (AttributeError ''address''))) \<and>
   (\<forall>r. top_stack s = Some r \<and> r \<noteq> self \<longrightarrow>
       fst (exit_scope ce self exc s) = Some (AssertionError ''appliance stack inconsistent'')) \<and>
   (top_stack s = Some self \<longrightarrow>
       (\<exists>s'. exit_scope ce self exc s = (None, s') \<and> items s' = tl (items s))) \<and>
   (top_stack s = None \<longrightarrow>
       fst (pop s) = Inl (AttributeError ''address'') \<and>
       fst (exit_scope ce self exc s) = Some (AttributeError ''address''))"
proof (intro conjI allI impI)
  obtain s1 where p1: "pop (push B (push A s)) = (Inr B, s1)" and i1: "items s1 = A # items s"
    using pop_Cons [of "push B (push A s)" B "A # items s"] by auto
  obtain s2 where p2: "pop s1 = (Inr A, s2)" and i2: "items s2 = items s"
    using pop_Cons [OF i1] by auto
  have "items s = [] \<longrightarrow> top_stack s2 = None \<and> fst (pop s2) = Inl (AttributeError ''address'')"
    using i2 by (simp add: top_stack_None pop_Nil)
  then show "\<exists>s1 s2. pop (push B (push A s)) = (Inr B, s1) \<and> top_stack s1 = Some A \<and>
       pop s1 = (Inr A, s2) \<and> items s2 = items s \<and>
       (items s = [] \<longrightarrow> top_stack s2 = None \<and> fst (pop s2) = Inl (AttributeError ''address''))"
    using p1 p2 i2 top_stack_Cons [OF i1] by blast
next
  fix r assume "top_stack s = Some r \<and> r \<noteq> self"
  then obtain rs where "items s = r # rs" "r \<noteq> self"
    using top_stack_Some by blast
  then show "fst (exit_scope ce self exc s) = Some (AssertionError ''appliance stack inconsistent'')"
    using exit_scope_mismatch [of s r rs self ce exc] by auto
next
  assume "top_stack s = Some self"
  then obtain rs where "items s = self # rs"
    using top_stack_Some by blast
  then show "\<exists>s'. exit_scope ce self exc s = (None, s') \<and> items s' = tl (items s)"
    using exit_scope_match [of s self rs ce exc] by simp
next
  assume "top_stack s = None"
  then show "fst (pop s) = Inl (AttributeError ''address'')"
    by (simp add: top_stack_None pop_Nil)
next
  assume "top_stack s = None"
  then show "fst (exit_scope ce self exc s) = Some (AttributeError ''address'')"
    by (simp add: top_stack_None exit_scope_empty)
qed

theorem appliance_stack_lifo_witness:
  "items stack0 = [] \<and>
   (\<exists>s1 s2. pop (push 2 (push 1 stack0)) = (Inr 2, s1) \<and> top_stack s1 = Some 1 \<and>
       pop s1 = (Inr 1, s2) \<and> items s2 = [] \<and> top_stack s2 = None \<and>
       fst (pop s2) = Inl (AttributeError ''address'')) \<and>
   top_stack (push 2 stack0) = Some 2 \<and> (2::nat) \<noteq> 1 \<and>
   fst (exit_scope capture0 1 None (push 2 stack0)) =
     Some (AssertionError ''appliance stack inconsistent'') \<and>
   top_stack (push 1 stack0) = Some 1 \<and>
   (\<exists>s'. exit_scope capture0 1 None (push 1 stack0) = (None, s') \<and> items s' = []) \<and>
   top_stack stack0 = None \<and>
   fst (pop stack0) = Inl (AttributeError ''address'') \<and>
   fst (exit_scope capture0 1 None stack0) = Some (AttributeError ''address'')"
proof -
  have e: "items stack0 = []"
    by (simp add: stack0_def)
  have t0: "top_stack stack0 = None"
    by (simp add: top_stack_def e)
  have t1: "top_stack (push 1 stack0) = Some 1"
    by (simp add: top_stack_def)
  have t2: "top_stack (push 2 stack0) = Some 2 \<and> (2::nat) \<noteq> 1"
    by (simp add: top_stack_def)
  have a: "\<exists>s1 s2. pop (push 2 (push 1 stack0)) = (Inr 2, s1) \<and> top_stack s1 = Some 1 \<and>
       pop s1 = (Inr 1, s2) \<and> items s2 = [] \<and> top_stack s2 = None \<and>
       fst (pop s2) = Inl (AttributeError ''address'')"
    using appliance_stack_lifo [of 2 1 stack0 1 capture0 None] e by auto
  have b: "fst (exit_scope capture0 1 None (push 2 stack0)) =
     Some (AssertionError ''appliance stack inconsistent'')"
    using appliance_stack_lifo [of 2 1 "push 2 stack0" 1 capture0 None] t2 by blast
  have c: "\<exists>s'. exit_scope capture0 1 None (push 1 stack0) = (None, s') \<and> items s' = []"
    using appliance_stack_lifo [of 2 1 "push 1 stack0" 1 capture0 None] t1 e by simp
  have d: "fst (pop stack0) = Inl (AttributeError ''address'') \<and>
     fst (exit_scope capture0 1 None stack0) = Some (AttributeError ''address'')"
    using appliance_stack_lifo [of 2 1 stack0 1 capture0 None] t0 by blast
  show ?thesis
    using e t0 t1 t2 a b c d by blast
qed

text \<open>
  C10, as amended. For an address-only \<^verbatim>\<open>IPAppliance\<close> and a provider-backed
  \<^verbatim>\<open>Appliance\<close> that report the same address, the two \<^verbatim>\<open>__eq__\<close> methods disagree:
  \<^verbatim>\<open>IPAppliance.__eq__\<close> of the first on the second is true (it compares by address against
  any appliance), \<^verbatim>\<open>Appliance.__eq__\<close> of the second on the first is false (it requires an
  \<^verbatim>\<open>Appliance\<close>). The expression \<^verbatim>\<open>==\<close> is false in both orders, since with the subclass
  instance on the right Python asks the subclass's method first.
\<close>

theorem appliance_eq_methods_asymmetric:
  "IPAppliance_eq (IPAppliance a) (App (Appliance pk vm a)) \<and>
   \<not> Appliance_eq pk vm (App (IPAppliance a)) \<and>
   \<not> py_eq (IPAppliance a) (Appliance pk vm a) \<and>
   \<not> py_eq (Appliance pk vm a) (IPAppliance a)"
  by (simp add: py_eq_def)

text \<open>
  C10 as stated fails: with the \<^verbatim>\<open>IPAppliance\<close> on the left and the \<^verbatim>\<open>Appliance\<close> on the
  right, \<^verbatim>\<open>==\<close> does not hold although the addresses are the same.
\<close>

theorem appliance_eq_counterexample:
  "address_of (IPAppliance ''10.0.0.1'') = address_of (Appliance ''rhevm'' ''cfme-vm'' ''10.0.0.1'') \<and>
   \<not> py_eq (IPAppliance ''10.0.0.1'') (Appliance ''rhevm'' ''cfme-vm'' ''10.0.0.1'')"
  by (simp add: py_eq_def)

text \<open>
  C1. \<open>is_db_ready\<close> returns true exactly when \<open>db_online\<close>, \<open>db_has_database\<close> and
  \<open>db_has_tables\<close>, evaluated one after the other, all return true. It evaluates them with
  short-circuit ordering: when \<open>db_online\<close> is false, \<open>is_db_ready\<close> does what \<open>db_online\<close>
  alone does, and neither the command of \<open>db_has_database\<close> nor that of \<open>db_has_tables\<close> is
  run; when \<open>db_online\<close> is true and \<open>db_has_database\<close> is false, it does what these two do
  and the command of \<open>db_has_tables\<close> is not run.
\<close>

theorem is_db_ready_short_circuit:
  "(fst (is_db_ready env s) = Inr True \<longleftrightarrow>
      fst (db_online env s) = Inr True \<and>
      fst (db_has_database env (snd (db_online env s))) = Inr True \<and>
      fst (db_has_tables env (snd (db_has_database env (snd (db_online env s))))) = Inr True) \<and>
   (fst (db_online env s) = Inr False \<longrightarrow>
      is_db_ready env s = db_online env s \<and>
      filter (runs db_has_database_command) (trace (snd (is_db_ready env s))) =
        filter (runs db_has_database_command) (trace s) \<and>
      filter (runs db_has_tables_command) (trace (snd (is_db_ready env s))) =
        filter (runs db_has_tables_command) (trace s)) \<and>
   (fst (db_online env s) = Inr True \<and>
    fst (db_has_database env (snd (db_online env s))) = Inr False \<longrightarrow>
      is_db_ready env s = db_has_database env (snd (db_online env s)) \<and>
      filter (runs db_has_tables_command) (trace (snd (is_db_ready env s))) =
        filter (runs db_has_tables_command) (trace s))"
proof (intro conjI impI)
  show "fst (is_db_ready env s) = Inr True \<longleftrightarrow>
      fst (db_online env s) = Inr True \<and>
      fst (db_has_database env (snd (db_online env s))) = Inr True \<and>
      fst (db_has_tables env (snd (db_has_database env (snd (db_online env s))))) = Inr True"
    by (auto simp: is_db_ready_unfold split: prod.splits sum.splits)
next
  assume off: "fst (db_online env s) = Inr False"
  then show eq: "is_db_ready env s = db_online env s"
    by (auto simp: is_db_ready_unfold split: prod.splits sum.splits)
  show "filter (runs db_has_database_command) (trace (snd (is_db_ready env s))) =
        filter (runs db_has_database_command) (trace s)"
    unfolding eq
    by (rule keepsD [OF keeps_runs_db_online]) (rule db_commands_distinct)+
  show "filter (runs db_has_tables_command) (trace (snd (is_db_ready env s))) =
        filter (runs db_has_tables_command) (trace s)"
    unfolding eq
    by (rule keepsD [OF keeps_runs_db_online]) (rule db_commands_distinct)+
next
  assume a: "fst (db_online env s) = Inr True \<and>
    fst (db_has_database env (snd (db_online env s))) = Inr False"
  then show eq: "is_db_ready env s = db_has_database env (snd (db_online env s))"
    by (auto simp: is_db_ready_unfold split: prod.splits sum.splits)
  have 1: "filter (runs db_has_tables_command)
             (trace (snd (db_has_database env (snd (db_online env s))))) =
           filter (runs db_has_tables_command) (trace (snd (db_online env s)))"
    by (rule keepsD [OF keeps_runs_db_has_database]) (rule db_commands_distinct)+
  have 2: "filter (runs db_has_tables_command) (trace (snd (db_online env s))) =
           filter (runs db_has_tables_command) (trace s)"
    by (rule keepsD [OF keeps_runs_db_online]) (rule db_commands_distinct)+
  show "filter (runs db_has_tables_command) (trace (snd (is_db_ready env s))) =
        filter (runs db_has_tables_command) (trace s)"
    unfolding eq using 1 2 by simp
qed

text \<open>
  C1, at concrete inputs: a database that is offline, one that is online without the
  \<^verbatim>\<open>vmdb_production\<close> database, and one that is ready.
\<close>

theorem is_db_ready_short_circuit_witness:
  "fst (db_online env_offline state0) = Inr False \<and>
   is_db_ready env_offline state0 = db_online env_offline state0 \<and>
   filter (runs db_has_database_command) (trace (snd (is_db_ready env_offline state0))) = [] \<and>
   filter (runs db_has_tables_command) (trace (snd (is_db_ready env_offline state0))) = [] \<and>
   fst (db_online env_nodb state0) = Inr True \<and>
   fst (db_has_database env_nodb (snd (db_online env_nodb state0))) = Inr False \<and>
   is_db_ready env_nodb state0 = db_has_database env_nodb (snd (db_online env_nodb state0)) \<and>
   filter (runs db_has_tables_command) (trace (snd (is_db_ready env_nodb state0))) = [] \<and>
   fst (is_db_ready env0 state0) = Inr True"
proof -
  have t0: "trace state0 = []"
    by (simp add: state0_def)
  have off: "fst (db_online env_offline state0) = Inr False"
    by (simp add: db_ready_defs monad_defs env_offline_def example_defs)
  have on1: "fst (db_online env_nodb state0) = Inr True"
    by (simp add: db_ready_defs monad_defs env_nodb_def example_defs)
  have nodb: "fst (db_has_database env_nodb (snd (db_online env_nodb state0))) = Inr False"
    by (simp add: db_ready_defs monad_defs env_nodb_def example_defs)
  have on0: "fst (db_online env0 state0) = Inr True"
    by (simp add: db_ready_defs monad_defs example_defs)
  have db0: "fst (db_has_database env0 (snd (db_online env0 state0))) = Inr True"
    by (simp add: db_ready_defs monad_defs example_defs)
  have tb0: "fst (db_has_tables env0 (snd (db_has_database env0 (snd (db_online env0 state0)))))
               = Inr True"
    by (simp add: db_ready_defs monad_defs example_defs)
  have a: "is_db_ready env_offline state0 = db_online env_offline state0 \<and>
      filter (runs db_has_database_command) (trace (snd (is_db_ready env_offline state0))) = [] \<and>
      filter (runs db_has_tables_command) (trace (snd (is_db_ready env_offline state0))) = []"
    using is_db_ready_short_circuit [of env_offline state0] off unfolding t0 by fastforce
  have b: "is_db_ready env_nodb state0 =
        db_has_database env_nodb (snd (db_online env_nodb state0)) \<and>
      filter (runs db_has_tables_command) (trace (snd (is_db_ready env_nodb state0))) = []"
    using is_db_ready_short_circuit [of env_nodb state0] on1 nodb unfolding t0 by fastforce
  have c: "fst (is_db_ready env0 state0) = Inr True"
    using is_db_ready_short_circuit [of env0 state0] on0 db0 tb0 by blast
  show ?thesis
    using a b c off on1 nodb by blast
qed










text \<open>
  C5. \<open>enable_internal_db\<close> and \<open>enable_external_db\<close> leave the cache of \<^verbatim>\<open>db\<close> empty and
  \<^verbatim>\<open>db_address\<close> at the new address, whether they return or raise. Reading \<^verbatim>\<open>db\<close>
  afterwards makes a new handle on the new address, which is not a handle that existed
  before (every object made so far has an identity below \<open>next_oid\<close>).
\<close>

theorem enable_db_invalidates_handle:
  "db_cache (snd (enable_internal_db env region key_address db_password ssh_password s)) = None \<and>
   db_address_cache (snd (enable_internal_db env region key_address db_password ssh_password s)) =
     Some (address s) \<and>
   fst (db env (snd (enable_internal_db env region key_address db_password ssh_password s))) =
     Inr \<lparr>db_hostname = address s, db_oid = next_oid s\<rparr> \<and>
   db_cache (snd (enable_external_db env new_db_address ext_region db_name db_username ext_password s))
     = None \<and>
   db_address_cache
     (snd (enable_external_db env new_db_address ext_region db_name db_username ext_password s)) =
     Some new_db_address \<and>
   fst (db env (snd (enable_external_db env new_db_address ext_region db_name db_username
                       ext_password s))) =
     Inr \<lparr>db_hostname = new_db_address, db_oid = next_oid s\<rparr> \<and>
   (\<forall>old. db_cache s = Some old \<and> db_oid old < next_oid s \<longrightarrow>
      fst (db env (snd (enable_internal_db env region key_address db_password ssh_password s)))
        \<noteq> Inr old \<and>
      fst (db env (snd (enable_external_db env new_db_address ext_region db_name db_username
                          ext_password s))) \<noteq> Inr old)"
proof -
  note i = cache_viewD [OF enable_internal_db_view
             [of env region key_address db_password ssh_password s]]
  note e = cache_viewD [OF enable_external_db_view
             [of env new_db_address ext_region db_name db_username ext_password s]]
  have di: "fst (db env (snd (enable_internal_db env region key_address db_password
                                ssh_password s))) =
            Inr \<lparr>db_hostname = address s, db_oid = next_oid s\<rparr>"
    using db_fresh [of _ "address s" env] i by simp
  have de: "fst (db env (snd (enable_external_db env new_db_address ext_region db_name db_username
                                ext_password s))) =
            Inr \<lparr>db_hostname = new_db_address, db_oid = next_oid s\<rparr>"
    using db_fresh [of _ new_db_address env] e by simp
  show ?thesis
    using i e di de by auto
qed

text \<open>
  C5, at a concrete input: an appliance with a cached handle on 10.0.0.1.
\<close>

theorem enable_db_invalidates_handle_witness:
  "db_cache state_db = Some old_handle \<and> db_oid old_handle < next_oid state_db \<and>
   fst (db env0 state_db) = Inr old_handle \<and>
   fst (db env0 (snd (enable_internal_db env0 0 None None None state_db))) =
     Inr \<lparr>db_hostname = ''10.0.0.1'', db_oid = 1\<rparr> \<and>
   fst (db env0 (snd (enable_internal_db env0 0 None None None state_db))) \<noteq> Inr old_handle \<and>
   fst (db env0 (snd (enable_external_db env0 ''10.0.0.9'' 0 None None None state_db))) =
     Inr \<lparr>db_hostname = ''10.0.0.9'', db_oid = 1\<rparr> \<and>
   fst (db env0 (snd (enable_external_db env0 ''10.0.0.9'' 0 None None None state_db))) \<noteq>
     Inr old_handle"
proof -
  have a: "db_cache state_db = Some old_handle \<and> db_oid old_handle < next_oid state_db \<and>
           next_oid state_db = 1 \<and> address state_db = ''10.0.0.1''"
    by (simp add: state_db_def state0_def old_handle_def)
  have b: "fst (db env0 state_db) = Inr old_handle"
    by (simp add: db_def cached_property_def state_db_def)
  show ?thesis
    using enable_db_invalidates_handle [where env = env0 and region = 0 and key_address = None and db_password = None
        and ssh_password = None and s = state_db and new_db_address = "''10.0.0.9''"
        and ext_region = 0 and db_name = None and db_username = None and ext_password = None]
      a b
    by (simp add: old_handle_def)
qed

text \<open>
  C9. Whenever the \<^verbatim>\<open>server_roles\<close> getter returns, the mapping it returns has neither
  the key \<^verbatim>\<open>database_owner\<close> nor the key \<^verbatim>\<open>vdi_inventory\<close>, whatever the storage flag
  is. Its keys are exactly the role names of the store without those two and, when the
  storage flag (\<^verbatim>\<open>is_storage_enabled\<close>) is false, without the names that start with
  \<^verbatim>\<open>storage\<close> and the name \<^verbatim>\<open>vmdb_storage_bridge\<close>: the flag suppresses those keys and no
  other.
\<close>

theorem server_roles_dead_keys:
  assumes "server_roles env s = (Inr roles, s')"
  shows "''database_owner'' \<notin> fst ` set roles \<and> ''vdi_inventory'' \<notin> fst ` set roles \<and>
         (\<exists>tr h sr_rows.
            server_roles_table (store_answer env tr h) = Some sr_rows \<and>
            fst ` set roles =
              sr_name ` set sr_rows - {''database_owner'', ''vdi_inventory''} -
              (if is_storage_enabled_cache s' = Some False then {k. storage_key k} else {}))"
proof -
  from assms obtain roles0 s5 where
      rd: "read_roles env s = (Inr roles0, s5)"
    and sp: "suppress_dead_keys env roles0 s5 = (Inr roles, s')"
    unfolding server_roles_def by (elim bnd_eq_Inr)
  from sp obtain dead_keys where
      c: "collect_dead_keys env (map fst roles0) [''database_owner'', ''vdi_inventory''] s5 =
            (Inr dead_keys, s')"
    and e: "roles = fold del_key dead_keys roles0"
    unfolding suppress_dead_keys_def by (auto elim!: bnd_eq_Inr simp: ret_def)
  have dk: "set dead_keys = {''database_owner'', ''vdi_inventory''} \<union>
          (if is_storage_enabled_cache s' = Some False
           then {k \<in> set (map fst roles0). storage_key k} else {})"
    using collect_dead_keys_Inr [OF c] by simp
  have keys: "fst ` set roles = fst ` set roles0 - set dead_keys"
    unfolding e by (rule keys_fold_del_key)
  obtain tr h sr_rows where
      st: "server_roles_table (store_answer env tr h) = Some sr_rows"
    and nm: "map fst roles0 = remdups (map sr_name sr_rows)"
    using read_roles_Inr [OF rd] by blast
  have k0: "fst ` set roles0 = sr_name ` set sr_rows"
    using arg_cong [OF nm, of set] by simp
  have "fst ` set roles =
          sr_name ` set sr_rows - {''database_owner'', ''vdi_inventory''} -
          (if is_storage_enabled_cache s' = Some False then {k. storage_key k} else {})"
    unfolding keys dk using k0 by auto
  moreover have "''database_owner'' \<notin> fst ` set roles \<and> ''vdi_inventory'' \<notin> fst ` set roles"
    unfolding keys dk by simp
  ultimately show ?thesis
    using st by blast
qed

theorem server_roles_dead_keys_witness:
  "fst (server_roles env_store state0) = Inr [(''automate'', True), (''ems_inventory'', False)] \<and>
   ''database_owner'' \<notin> fst ` set [(''automate'', True), (''ems_inventory'', False)] \<and>
   ''vdi_inventory'' \<notin> fst ` set [(''automate'', True), (''ems_inventory'', False)] \<and>
   is_storage_enabled_cache (snd (server_roles env_store state0)) = Some False \<and>
   (\<exists>tr h sr_rows.
      server_roles_table (store_answer env_store tr h) = Some sr_rows \<and>
      fst ` set [(''automate'', True), (''ems_inventory'', False)] =
        sr_name ` set sr_rows - {''database_owner'', ''vdi_inventory''} - {k. storage_key k})"
proof -
  have r: "fst (server_roles env_store state0) =
             Inr [(''automate'', True), (''ems_inventory'', False)]"
    by (simp add: roles_defs monad_defs env_store_def store0_def example_defs Let_def
             del: set_concat set_map set_filter)
  have c: "is_storage_enabled_cache (snd (server_roles env_store state0)) = Some False"
    by (simp add: roles_defs monad_defs env_store_def store0_def example_defs Let_def
             del: set_concat set_map set_filter)
  have p: "server_roles env_store state0 =
             (Inr [(''automate'', True), (''ems_inventory'', False)],
              snd (server_roles env_store state0))"
    using r by (metis prod.collapse)
  show ?thesis
    using server_roles_dead_keys [OF p] r c by simp
qed

text \<open>
  C4. Assigning \<^verbatim>\<open>server_roles\<close> a mapping equal to the mapping that the getter reads is
  a no-op. The assignment returns normally, and all it does is that one read of
  \<^verbatim>\<open>server_roles\<close> for the comparison and one debug log message: its final state is the
  state after the read with the message added to the trace. So it goes on neither to
  fetch the YAML configuration, nor to write it, nor to wait for the roles to converge,
  and the trace has no writing event that it did not have before.
\<close>

theorem server_roles_setter_noop:
  assumes "server_roles env s = (Inr current, s1)" and "dict_eq current roles"
  shows "server_roles_setter env roles s =
           (Inr (), s1\<lparr>trace := trace s1 @
                      [LogMsg ''debug'' '' Roles already match, returning...'']\<rparr>) \<and>
         filter writes (trace (snd (server_roles_setter env roles s))) = filter writes (trace s)"
proof -
  have r: "server_roles_setter env roles s =
           (Inr (), s1\<lparr>trace := trace s1 @
                      [LogMsg ''debug'' '' Roles already match, returning...'']\<rparr>)"
    using assms by (simp add: server_roles_setter_def bnd_Inr log_apply)
  have "written s1 = written s"
    by (rule keeps_step [OF keeps_written_server_roles assms(1)])
  then show ?thesis
    using r by simp
qed

theorem server_roles_setter_noop_witness:
  "fst (server_roles env_store state0) = Inr [(''automate'', True), (''ems_inventory'', False)] \<and>
   dict_eq [(''automate'', True), (''ems_inventory'', False)]
           [(''ems_inventory'', False), (''automate'', True)] \<and>
   server_roles_setter env_store [(''ems_inventory'', False), (''automate'', True)] state0 =
     (Inr (), (snd (server_roles env_store state0))
                \<lparr>trace := trace (snd (server_roles env_store state0)) @
                            [LogMsg ''debug'' '' Roles already match, returning...'']\<rparr>) \<and>
   filter writes (trace (snd (server_roles_setter env_store
       [(''ems_inventory'', False), (''automate'', True)] state0))) = []"
proof -
  have r: "fst (server_roles env_store state0) =
             Inr [(''automate'', True), (''ems_inventory'', False)]"
    by (simp add: roles_defs monad_defs env_store_def store0_def example_defs Let_def
             del: set_concat set_map set_filter)
  have p: "server_roles env_store state0 =
             (Inr [(''automate'', True), (''ems_inventory'', False)],
              snd (server_roles env_store state0))"
    using r by (metis prod.collapse)
  have e: "dict_eq [(''automate'', True), (''ems_inventory'', False)]
                   [(''ems_inventory'', False), (''automate'', True)]"
    by (auto simp: dict_eq_def)
  have t: "trace state0 = []"
    by (simp add: state0_def)
  note n = server_roles_setter_noop [OF p e]
  have a: "server_roles_setter env_store [(''ems_inventory'', False), (''automate'', True)] state0 =
     (Inr (), (snd (server_roles env_store state0))
                \<lparr>trace := trace (snd (server_roles env_store state0)) @
                            [LogMsg ''debug'' '' Roles already match, returning...'']\<rparr>)"
    by (rule conjunct1 [OF n])
  have b: "filter writes (trace (snd (server_roles_setter env_store
       [(''ems_inventory'', False), (''automate'', True)] state0))) = []"
    by (simp only: conjunct2 [OF n] t filter.simps)
  show ?thesis
    using r e a b by blast
qed




end
